theory Spec2Isabelle
  imports Main "HOL-Library.Sublist"
begin

section \<open>Python values used by the linter runner\<close>

text \<open>
  The exceptions the code distinguishes in its handlers. All of them are subclasses of
  Python's \<open>Exception\<close>; \<open>OtherException\<close> stands for any further subclass (for
  example what a parser raises on malformed output).
\<close>

datatype exn = OSError | CalledProcessError | TypeError | ValueError | AttributeError | OtherException

text \<open>\<open>str.split(sep)\<close> for a one-character separator.\<close>

fun split_on :: "char \<Rightarrow> string \<Rightarrow> string list" where
  "split_on c [] = [[]]"
| "split_on c (x # xs) =
     (if x = c then [] # split_on c xs
      else (case split_on c xs of
              [] \<Rightarrow> [[x]]
            | w # ws \<Rightarrow> (x # w) # ws))"

text \<open>\<open>str.strip()\<close> on ASCII text: whitespace is removed at both ends.\<close>

definition is_space :: "char \<Rightarrow> bool" where
  "is_space c = (c \<in> set [CHR '' '', CHR 0x09, CHR 0x0A, CHR 0x0B, CHR 0x0C, CHR 0x0D,
                           CHR 0x1C, CHR 0x1D, CHR 0x1E, CHR 0x1F])"

definition strip :: "string \<Rightarrow> string" where
  "strip s = rev (dropWhile is_space (rev (dropWhile is_space s)))"

text \<open>\<open>sub in s\<close> for two strings.\<close>

fun contains :: "string \<Rightarrow> string \<Rightarrow> bool" where
  "contains sub [] = (sub = [])"
| "contains sub (y # ys) = (prefix sub (y # ys) \<or> contains sub ys)"

text \<open>\<open>os.path.join(a, b)\<close> on a POSIX system.\<close>

definition path_join :: "string \<Rightarrow> string \<Rightarrow> string" where
  "path_join a b =
     (if prefix ''/'' b then b
      else if a = [] \<or> last a = CHR ''/'' then a @ b
      else a @ ''/'' @ b)"

text \<open>
  A Python \<open>set\<close> of strings is kept as the list of its elements without repetition;
  \<open>py_add\<close> is \<open>set.add\<close>.
\<close>

definition py_add :: "'a \<Rightarrow> 'a list \<Rightarrow> 'a list" where
  "py_add x xs = (if x \<in> set xs then xs else xs @ [x])"

text \<open>
  \<open>enabled_linters.extend(enabled_linters[0].split(","))\<close> inside
  \<open>try ... except (IndexError, AttributeError): pass\<close>: an empty list is left as it is.
\<close>

definition extend_csv :: "string list \<Rightarrow> string list" where
  "extend_csv xs = (case xs of [] \<Rightarrow> [] | x # _ \<Rightarrow> xs @ split_on CHR '','' x)"

text \<open>Sequencing of a fallible step over a list: the first exception ends it.\<close>

fun traverse :: "('a \<Rightarrow> exn + 'b) \<Rightarrow> 'a list \<Rightarrow> exn + 'b list" where
  "traverse f [] = Inr []"
| "traverse f (x # xs) =
     (case f x of
        Inl e \<Rightarrow> Inl e
      | Inr y \<Rightarrow> (case traverse f xs of Inl e \<Rightarrow> Inl e | Inr ys \<Rightarrow> Inr (y # ys)))"

section \<open>The registry\<close>

text \<open>One entry of \<open>LINTERS\<close>; an absent optional key is \<open>None\<close>.
  The key \<open>help\<close> is the field \<open>help_cmd\<close>.\<close>

record config =
  install :: "string list list"
  help_cmd :: "string list"
  run :: "string list"
  rundefault :: "string list"
  dotfiles :: "string list"
  parser :: string
  language :: string
  autorun :: bool
  run_per_file :: bool
  run_if_dotfile_in_root :: "bool option"
  concurrency :: "nat option"

type_synonym registry = "(string \<times> config) list"

definition PATTERNS :: "(string \<times> string list) list" where
  "PATTERNS =
     [(''all'', [''*.*'']),
      (''ansible'', [''*.yaml'', ''*.yml'']),
      (''docker'', [''*Dockerfile'', ''*.dockerfile'']),
      (''gherkin'', [''*.feature'']),
      (''go'', [''*.go'']),
      (''groovy'', [''*.groovy'', ''Jenkinsfile'', ''jenkinsfile'']),
      (''java'', [''*.java'']),
      (''javascript'', [''*.js'']),
      (''json'', [''*.json'']),
      (''markdown'', [''*.md'']),
      (''python'', [''*.py'']),
      (''shell'', [''*.sh'', ''*.zsh'', ''*.ksh'', ''*.bsh'', ''*.csh'', ''*.bash'']),
      (''stylus'', [''*.styl'']),
      (''robotframework'', [''*.robot'']),
      (''rst'', [''*.rst'']),
      (''text'', [''*.md'', ''*.txt'', ''*.rtf'', ''*.html'', ''*.tex'', ''*.markdown'']),
      (''yaml'', [''*.yaml'', ''*.yml''])]"

definition TRUSTED_INSTALL :: "string \<Rightarrow> string list list" where
  "TRUSTED_INSTALL sys_exe =
     [[''bundle'', ''install''],
      [''cabal'', ''update''],
      [''cabal'', ''install''],
      [''glide'', ''install'', ''--strip-vendor''],
      [''godep'', ''get''],
      [''godep'', ''restore''],
      [''dep'', ''ensure''],
      [''dep'', ''prune''],
      [''govendor'', ''sync''],
      [''go'', ''get'', ''-t'', ''-v'', ''./...''],
      [''yarn'', ''install'', ''--non-interactive''],
      [''npm'', ''install''],
      [sys_exe, ''setup.py'', ''develop''],
      [sys_exe, ''-m'', ''pip'', ''install'', ''.''],
      [sys_exe, ''-m'', ''pip'', ''install'', ''-e'', ''.''],
      [sys_exe, ''-m'', ''pip'', ''install'', ''-r'', ''requirements.txt''],
      [sys_exe, ''-m'', ''pip'', ''install'', ''-r'', ''requirements_dev.txt''],
      [sys_exe, ''-m'', ''pip'', ''install'', ''-r'', ''requirements-dev.txt''],
      [''pipenv'', ''install'']]"

definition INSTALL_DIRS :: "string list" where
  "INSTALL_DIRS = [''node_modules'', ''.bundle'']"

text \<open>
  \<open>LINTERS\<close>, in the order of the source, each entry under a name of its own
  (\<open>cfg_\<close> and the key). The interpreter path \<open>sys.executable\<close>, the
  function \<open>vendored_path\<close> and the working directory are taken from outside; the
  literal paths are normalised as \<open>os.path.normpath\<close> and \<open>os.path.join\<close> do on a
  POSIX system, where \<open>JAVA_SEP\<close> is a colon.
\<close>

definition codenarc_classpath :: "(string \<Rightarrow> string) \<Rightarrow> string" where
  "codenarc_classpath vendored_path =
     vendored_path ''groovy/groovy-all-2.4.15.jar'' @ '':'' @
     vendored_path ''codenarc/CodeNarc-1.1.jar'' @ '':'' @
     vendored_path ''groovy/slf4j-api-1.7.25.jar'' @ '':'' @
     vendored_path ''codenarc'' @ '':.''"

definition cfg_ansible_lint :: "string \<Rightarrow> config" where
  "cfg_ansible_lint sys_exe =
     \<lparr>install = [[sys_exe, ''-m'', ''pip'', ''install'', ''-U'', ''ansible-lint'']],
      help_cmd = [''ansible-lint'', ''-h''],
      run = [''ansible-lint'', ''-p''],
      rundefault = [''ansible-lint'', ''-p'', ''-c'', ''{config_dir}/.ansible-lint''],
      dotfiles = [''.ansible-lint''],
      parser = ''AnsibleLintParser'',
      language = ''ansible'',
      autorun = True,
      run_per_file = True,
      run_if_dotfile_in_root = None,
      concurrency = None\<rparr>"

definition cfg_bandit :: "string \<Rightarrow> config" where
  "cfg_bandit sys_exe =
     \<lparr>install = [[sys_exe, ''-m'', ''pip'', ''install'', ''-U'', ''bandit'']],
      help_cmd = [''bandit'', ''-h''],
      run = [''bandit'', ''-f'', ''json'', ''-iii'', ''-ll'', ''-r'', ''.''],
      rundefault = [''bandit'', ''-f'', ''json'', ''-iii'', ''-ll'', ''-r'', ''.'', ''-c'',
         ''{config_dir}/bandit.yaml''],
      dotfiles = [''bandit.yaml''],
      parser = ''BanditParser'',
      language = ''python'',
      autorun = True,
      run_per_file = False,
      run_if_dotfile_in_root = None,
      concurrency = None\<rparr>"

definition cfg_codenarc :: "(string \<Rightarrow> string) \<Rightarrow> string \<Rightarrow> config" where
  "cfg_codenarc vendored_path cwd =
     \<lparr>install = [],
      help_cmd = [''java'', ''-classpath'', codenarc_classpath vendored_path,
         ''org.codenarc.CodeNarc'', ''-help''],
      run = [''java'', ''-classpath'', codenarc_classpath vendored_path,
         ''org.codenarc.CodeNarc'',
         ''-includes=**/*.groovy,**/Jenkinsfile,**/jenkinsfile,**/...groovy'',
         ''-report=console'', (''-rulesetfiles='' @ (path_join cwd ''codenarc.xml''))],
      rundefault = [''java'', ''-classpath'', codenarc_classpath vendored_path,
         ''org.codenarc.CodeNarc'',
         ''-includes=**/*.groovy,**/Jenkinsfile,**/jenkinsfile,**/...groovy'',
         ''-report=console'', ''-rulesetfiles=codenarc.xml''],
      dotfiles = [''codenarc.xml''],
      parser = ''CodenarcParser'',
      language = ''groovy'',
      autorun = True,
      run_per_file = False,
      run_if_dotfile_in_root = None,
      concurrency = None\<rparr>"

definition cfg_detect_secrets :: "string \<Rightarrow> config" where
  "cfg_detect_secrets sys_exe =
     \<lparr>install = [[sys_exe, ''-m'', ''pip'', ''install'', ''-U'',
         ''git+https://github.com/Yelp/detect-secrets.git@49dc1786f20f6d11ca1ce53bda6479f6c0ccea0f'']],
      help_cmd = [''detect-secrets'', ''-h''],
      run = [''detect-secrets'', ''scan'', ''--all-files''],
      rundefault = [''detect-secrets'', ''scan'', ''--all-files''],
      dotfiles = [],
      parser = ''DetectSecretsParser'',
      language = ''all'',
      autorun = True,
      run_per_file = False,
      run_if_dotfile_in_root = None,
      concurrency = None\<rparr>"

definition cfg_dockerfile_lint :: "config" where
  "cfg_dockerfile_lint =
     \<lparr>install = [[''npm'', ''install'', ''dockerfile_lint'']],
      help_cmd = [''node_modules/.bin/dockerfile_lint'', ''-h''],
      run = [''node_modules/.bin/dockerfile_lint'', ''-j'', ''-f''],
      rundefault = [''node_modules/.bin/dockerfile_lint'', ''-j'', ''-f''],
      dotfiles = [],
      parser = ''DockerfileLintParser'',
      language = ''docker'',
      autorun = True,
      run_per_file = True,
      run_if_dotfile_in_root = None,
      concurrency = None\<rparr>"

definition cfg_eclint :: "config" where
  "cfg_eclint =
     \<lparr>install = [[''npm'', ''install'', ''eclint'']],
      help_cmd = [''node_modules/.bin/eclint'', ''-h''],
      run = [''node_modules/.bin/eclint'', ''check''],
      rundefault = [''node_modules/.bin/eclint'', ''check''],
      dotfiles = [''.editorconfig''],
      parser = ''ECLintParser'',
      language = ''all'',
      autorun = False,
      run_per_file = True,
      run_if_dotfile_in_root = Some False,
      concurrency = None\<rparr>"

definition cfg_eslint :: "config" where
  "cfg_eslint =
     \<lparr>install = [[''npm'', ''install'', ''eslint'']],
      help_cmd = [''node_modules/.bin/eslint'', ''-h''],
      run = [''node_modules/.bin/eslint'', ''.'', ''-f'', ''unix''],
      rundefault = [''node_modules/.bin/eslint'', ''.'', ''-f'', ''unix'', ''-c'',
         ''{config_dir}/.eslintrc.js'', ''--ignore-path'',
         ''{config_dir}/.eslintignore''],
      dotfiles = [''.eslintrc.yml'', ''.eslintrc.yaml'', ''.eslintignore'', ''.eslintrc'',
         ''.eslintrc.js'', ''.eslintrc.json''],
      parser = ''ESLintParser'',
      language = ''javascript'',
      autorun = True,
      run_per_file = False,
      run_if_dotfile_in_root = None,
      concurrency = None\<rparr>"

definition cfg_gherkin_lint :: "config" where
  "cfg_gherkin_lint =
     \<lparr>install = [[''npm'', ''install'', ''gherkin-lint'']],
      help_cmd = [''node_modules/.bin/gherkin-lint'', ''--help''],
      run = [''node_modules/.bin/gherkin-lint'', ''.'', ''-f'', ''json''],
      rundefault = [''node_modules/.bin/gherkin-lint'', ''.'', ''-f'', ''json'', ''-c'',
         ''{config_dir}/.gherkin-lintrc''],
      dotfiles = [''.gherkin-lintrc''],
      parser = ''GherkinLintParser'',
      language = ''gherkin'',
      autorun = True,
      run_per_file = False,
      run_if_dotfile_in_root = None,
      concurrency = None\<rparr>"

definition cfg_gometalinter_v2 :: "config" where
  "cfg_gometalinter_v2 =
     \<lparr>install = [[''go'', ''get'', ''-u'', ''gopkg.in/alecthomas/gometalinter.v2''],
         [''gometalinter.v2'', ''--install'', ''--update'']],
      help_cmd = [''gometalinter.v2'', ''--install'', ''--update''],
      run = [''gometalinter.v2'', ''--enable-gc'', ''--deadline=300s'', ''--aggregate'',
         ''--vendor'', ''--json'', ''-s'', ''node_modules'', ''-s'', ''src'', ''./...''],
      rundefault = [''gometalinter.v2'', ''--enable-gc'', ''--deadline=300s'', ''--aggregate'',
         ''--vendor'', ''--disable=lll'', ''--json'', ''-s'', ''node_modules'', ''-s'',
         ''src'', ''--config={config_dir}/.gometalinter.json'', ''./...''],
      dotfiles = [''.gometalinter.json''],
      parser = ''GometalinterParser'',
      language = ''go'',
      autorun = False,
      run_per_file = False,
      run_if_dotfile_in_root = None,
      concurrency = None\<rparr>"

definition cfg_gometalinter :: "config" where
  "cfg_gometalinter =
     \<lparr>install = [[''go'', ''get'', ''-u'', ''github.com/alecthomas/gometalinter''],
         [''gometalinter'', ''--install'', ''--update'']],
      help_cmd = [''gometalinter'', ''--install'', ''--update''],
      run = [''gometalinter'', ''--enable-gc'', ''--deadline=300s'', ''--aggregate'',
         ''--vendor'', ''--json'', ''-s'', ''node_modules'', ''-s'', ''src'', ''./...''],
      rundefault = [''gometalinter'', ''--enable-gc'', ''--deadline=300s'', ''--aggregate'',
         ''--vendor'', ''--disable=lll'', ''--json'', ''-s'', ''node_modules'', ''-s'',
         ''src'', ''--config={config_dir}/.gometalinter.json'', ''./...''],
      dotfiles = [''.gometalinter.json''],
      parser = ''GometalinterParser'',
      language = ''go'',
      autorun = True,
      run_per_file = False,
      run_if_dotfile_in_root = None,
      concurrency = None\<rparr>"

definition cfg_jscs :: "config" where
  "cfg_jscs =
     \<lparr>install = [[''npm'', ''install'', ''jscs'']],
      help_cmd = [''node_modules/.bin/jscs'', ''-h''],
      run = [''node_modules/.bin/jscs'', ''.'', ''-r'', ''json'', ''-m'', ''-1'', ''-v''],
      rundefault = [''node_modules/.bin/jscs'', ''.'', ''-r'', ''json'', ''-m'', ''-1'', ''-v'',
         ''-c'', ''{config_dir}/.jscsrc''],
      dotfiles = [''.jscsrc'', ''.jscs.json''],
      parser = ''JSCSParser'',
      language = ''javascript'',
      autorun = False,
      run_per_file = False,
      run_if_dotfile_in_root = None,
      concurrency = None\<rparr>"

definition cfg_jshint :: "config" where
  "cfg_jshint =
     \<lparr>install = [[''npm'', ''install'', ''jshint'']],
      help_cmd = [''node_modules/.bin/jshint'', ''-h''],
      run = [''node_modules/.bin/jshint'', ''.'', ''--reporter'', ''checkstyle''],
      rundefault = [''node_modules/.bin/jshint'', ''.'', ''--reporter'', ''checkstyle'', ''-c'',
         ''{config_dir}/.jshintrc''],
      dotfiles = [''.jshintrc''],
      parser = ''JSHintParser'',
      language = ''javascript'',
      autorun = False,
      run_per_file = False,
      run_if_dotfile_in_root = None,
      concurrency = None\<rparr>"

definition cfg_jsonlint :: "config" where
  "cfg_jsonlint =
     \<lparr>install = [[''npm'', ''install'', ''jsonlint'']],
      help_cmd = [''node_modules/.bin/jsonlint'', ''-h''],
      run = [''node_modules/.bin/jsonlint'', ''-c'', ''-q''],
      rundefault = [''node_modules/.bin/jsonlint'', ''-c'', ''-q''],
      dotfiles = [],
      parser = ''JSONLintParser'',
      language = ''json'',
      autorun = True,
      run_per_file = True,
      run_if_dotfile_in_root = None,
      concurrency = None\<rparr>"

definition cfg_markdownlint_cli :: "config" where
  "cfg_markdownlint_cli =
     \<lparr>install = [[''npm'', ''install'', ''markdownlint-cli'']],
      help_cmd = [''node_modules/.bin/markdownlint'', ''-h''],
      run = [''node_modules/.bin/markdownlint'', ''.''],
      rundefault = [''node_modules/.bin/markdownlint'', ''.'', ''-c'',
         ''{config_dir}/.markdownlintrc''],
      dotfiles = [''.markdownlintrc'', ''.markdownlint.json''],
      parser = ''MarkdownLintParser'',
      language = ''markdown'',
      autorun = True,
      run_per_file = False,
      run_if_dotfile_in_root = None,
      concurrency = None\<rparr>"

definition cfg_megacheck :: "config" where
  "cfg_megacheck =
     \<lparr>install = [[''go'', ''get'', ''-u'', ''honnef.co/go/tools/cmd/megacheck'']],
      help_cmd = [''megacheck'', ''--help''],
      run = [''megacheck'', ''-f'', ''json'', ''./...''],
      rundefault = [''megacheck'', ''-f'', ''json'', ''./...''],
      dotfiles = [],
      parser = ''MegacheckParser'',
      language = ''go'',
      autorun = False,
      run_per_file = False,
      run_if_dotfile_in_root = None,
      concurrency = None\<rparr>"

definition cfg_pmd :: "(string \<Rightarrow> string) \<Rightarrow> config" where
  "cfg_pmd vendored_path =
     \<lparr>install = [],
      help_cmd = [(vendored_path ''pmd/pmd-bin-6.3.0/bin/run.sh''), ''-help''],
      run = [(vendored_path ''pmd/pmd-bin-6.3.0/bin/run.sh''), ''pmd'', ''-d'', ''.'',
         ''-R'', ''java-basic'', ''-f'', ''emacs''],
      rundefault = [(vendored_path ''pmd/pmd-bin-6.3.0/bin/run.sh''), ''pmd'', ''-d'', ''.'',
         ''-R'', ''java-basic'', ''-f'', ''emacs''],
      dotfiles = [],
      parser = ''PMDParser'',
      language = ''java'',
      autorun = True,
      run_per_file = False,
      run_if_dotfile_in_root = None,
      concurrency = None\<rparr>"

definition cfg_proselint :: "string \<Rightarrow> config" where
  "cfg_proselint sys_exe =
     \<lparr>install = [[sys_exe, ''-m'', ''pip'', ''install'', ''-U'', ''proselint'']],
      help_cmd = [''proselint'', ''-h''],
      run = [''proselint''],
      rundefault = [''proselint''],
      dotfiles = [],
      parser = ''ProselintParser'',
      language = ''text'',
      autorun = True,
      run_per_file = True,
      run_if_dotfile_in_root = None,
      concurrency = Some 1\<rparr>"

definition cfg_prospector :: "string \<Rightarrow> config" where
  "cfg_prospector sys_exe =
     \<lparr>install = [[sys_exe, ''-m'', ''pip'', ''install'', ''-U'',
         ''prospector[with_everything]''], [sys_exe, ''-m'', ''pip'', ''install'',
         ''-U'', ''prospector'']],
      help_cmd = [''prospector'', ''-h''],
      run = [''prospector'', ''--zero-exit'', ''-o'', ''json''],
      rundefault = [''prospector'', ''--zero-exit'', ''-o'', ''json'', ''-P'',
         ''{config_dir}/.prospector.yaml''],
      dotfiles = [''.prospector.yaml''],
      parser = ''ProspectorParser'',
      language = ''python'',
      autorun = True,
      run_per_file = False,
      run_if_dotfile_in_root = None,
      concurrency = None\<rparr>"

definition cfg_robotframework_lint :: "string \<Rightarrow> config" where
  "cfg_robotframework_lint sys_exe =
     \<lparr>install = [[sys_exe, ''-m'', ''pip'', ''install'', ''-U'', ''robotframework-lint'']],
      help_cmd = [''rflint'', ''--help''],
      run = [''rflint''],
      rundefault = [''rflint'', ''-A'', ''{config_dir}/.rflint''],
      dotfiles = [''.rflint''],
      parser = ''RobotFrameworkLintParser'',
      language = ''robotframework'',
      autorun = True,
      run_per_file = True,
      run_if_dotfile_in_root = None,
      concurrency = None\<rparr>"

definition cfg_restructuredtext_lint :: "string \<Rightarrow> config" where
  "cfg_restructuredtext_lint sys_exe =
     \<lparr>install = [[sys_exe, ''-m'', ''pip'', ''install'', ''-U'', ''restructuredtext_lint'']],
      help_cmd = [''rst-lint'', ''-h''],
      run = [''rst-lint'', ''--format'', ''json'', ''--encoding'', ''utf-8''],
      rundefault = [''rst-lint'', ''--format'', ''json'', ''--encoding'', ''utf-8''],
      dotfiles = [],
      parser = ''RSTLintParser'',
      language = ''rst'',
      autorun = True,
      run_per_file = True,
      run_if_dotfile_in_root = None,
      concurrency = None\<rparr>"

definition cfg_shellcheck :: "config" where
  "cfg_shellcheck =
     \<lparr>install = [[''cabal'', ''update''], [''cabal'', ''install'', ''shellcheck''],
         [''apt-get'', ''install'', ''shellcheck''], [''dnf'', ''install'',
         ''shellcheck''], [''brew'', ''install'', ''shellcheck''], [''port'',
         ''install'', ''shellcheck''], [''zypper'', ''in'', ''ShellCheck'']],
      help_cmd = [''shellcheck'', ''-V''],
      run = [''shellcheck'', ''-f'', ''json''],
      rundefault = [''shellcheck'', ''-f'', ''json''],
      dotfiles = [],
      parser = ''ShellcheckParser'',
      language = ''shell'',
      autorun = True,
      run_per_file = True,
      run_if_dotfile_in_root = None,
      concurrency = None\<rparr>"

definition cfg_spotbugs_maven_plugin :: "config" where
  "cfg_spotbugs_maven_plugin =
     \<lparr>install = [[''mvn'', ''clean'', ''install'', ''-U''], [''mvn'', ''dependency:get'',
         ''-Dartifact=com.github.spotbugs:spotbugs-maven-plugin:3.1.3'']],
      help_cmd = [''mvn'', ''com.github.spotbugs:spotbugs-maven-plugin:3.1.3:help''],
      run = [''mvn'', ''-Dspotbugs.failOnError=false'',
         ''com.github.spotbugs:spotbugs-maven-plugin:3.1.3:check''],
      rundefault = [''mvn'', ''-Dspotbugs.failOnError=false'',
         ''com.github.spotbugs:spotbugs-maven-plugin:3.1.3:check''],
      dotfiles = [],
      parser = ''SpotbugsMavenParser'',
      language = ''java'',
      autorun = True,
      run_per_file = False,
      run_if_dotfile_in_root = None,
      concurrency = None\<rparr>"

definition cfg_stylint :: "config" where
  "cfg_stylint =
     \<lparr>install = [[''npm'', ''install'', ''stylint'']],
      help_cmd = [''node_modules/.bin/stylint'', ''-h''],
      run = [''node_modules/.bin/stylint''],
      rundefault = [''node_modules/.bin/stylint'', ''-c'', ''{config_dir}/.stylintrc''],
      dotfiles = [''.stylintrc''],
      parser = ''StylintParser'',
      language = ''stylus'',
      autorun = True,
      run_per_file = False,
      run_if_dotfile_in_root = None,
      concurrency = None\<rparr>"

definition cfg_yamllint :: "string \<Rightarrow> config" where
  "cfg_yamllint sys_exe =
     \<lparr>install = [[sys_exe, ''-m'', ''pip'', ''install'', ''yamllint'']],
      help_cmd = [''yamllint'', ''-h''],
      run = [''yamllint'', ''-f'', ''parsable'', ''.''],
      rundefault = [''yamllint'', ''-c'', ''{config_dir}/.yamllint'', ''-f'', ''parsable'', ''.''],
      dotfiles = [''.yamllint''],
      parser = ''YAMLLintParser'',
      language = ''yaml'',
      autorun = True,
      run_per_file = False,
      run_if_dotfile_in_root = None,
      concurrency = None\<rparr>"

definition LINTERS :: "string \<Rightarrow> (string \<Rightarrow> string) \<Rightarrow> string \<Rightarrow> registry" where
  "LINTERS sys_exe vendored_path cwd =
     [(''ansible-lint'', cfg_ansible_lint sys_exe),
      (''bandit'', cfg_bandit sys_exe),
      (''codenarc'', cfg_codenarc vendored_path cwd),
      (''detect-secrets'', cfg_detect_secrets sys_exe),
      (''dockerfile_lint'', cfg_dockerfile_lint),
      (''eclint'', cfg_eclint),
      (''eslint'', cfg_eslint),
      (''gherkin-lint'', cfg_gherkin_lint),
      (''gometalinter.v2'', cfg_gometalinter_v2),
      (''gometalinter'', cfg_gometalinter),
      (''jscs'', cfg_jscs),
      (''jshint'', cfg_jshint),
      (''jsonlint'', cfg_jsonlint),
      (''markdownlint-cli'', cfg_markdownlint_cli),
      (''megacheck'', cfg_megacheck),
      (''pmd'', cfg_pmd vendored_path),
      (''proselint'', cfg_proselint sys_exe),
      (''prospector'', cfg_prospector sys_exe),
      (''robotframework-lint'', cfg_robotframework_lint sys_exe),
      (''restructuredtext_lint'', cfg_restructuredtext_lint sys_exe),
      (''shellcheck'', cfg_shellcheck),
      (''spotbugs-maven-plugin'', cfg_spotbugs_maven_plugin),
      (''stylint'', cfg_stylint),
      (''yamllint'', cfg_yamllint sys_exe)]"

section \<open>The environment\<close>

text \<open>A directory: its subdirectories by name, in listing order, and its file names.\<close>

datatype tree = Dir (subdirs: "(string \<times> tree) list") (filenames: "string list")

text \<open>
  The raw output of a tool: the text of a whole-project run, or the list of
  \<open>(file, text)\<close> pairs of a per-file run. \<open>truthy\<close> is Python's \<open>if output:\<close>.
\<close>

datatype raw_output = Text string | PerFile "(string \<times> string) list"

fun truthy :: "raw_output \<Rightarrow> bool" where
  "truthy (Text t) = (t \<noteq> [])"
| "truthy (PerFile ps) = (ps \<noteq> [])"

type_synonym diagnostic = "string \<times> int \<times> string"

text \<open>
  What the class takes from outside this file, over a world \<open>'w\<close> that commands change:
  the interpreter path, the working directory (which exists) and the other directories,
  process spawning (\<open>spawn\<close> gives the exit status, stdout and stderr, or the exception
  of the spawn), \<open>system.should_stop\<close>, \<open>shutil.rmtree\<close>, the text classification of
  \<open>identify\<close> (of a file that exists), \<open>fnmatch.fnmatch\<close>, what \<open>os.path.relpath\<close>
  returns for a path that is not empty (for the empty path it raises, see
  \<open>os_path_relpath\<close> below), \<open>os.path.normpath\<close>, \<open>str.format(config_dir=...)\<close>, the
  parsers by class name, and the hash that orders the iteration of a Python set. The
  bundled configuration directory is \<open>os.path.abspath(os.path.join(HERE, "config"))\<close>.
\<close>

record 'w env =
  sys_executable :: string
  getcwd :: string
  bundled_config_dir :: string
  spawn :: "'w \<Rightarrow> string list \<Rightarrow> (exn + int \<times> string \<times> string) \<times> 'w"
  should_stop :: "'w \<Rightarrow> bool"
  cwd_tree :: "'w \<Rightarrow> tree"
  other_tree :: "'w \<Rightarrow> string \<Rightarrow> tree option"
  rmtree :: "string \<Rightarrow> 'w \<Rightarrow> 'w"
  is_text :: "'w \<Rightarrow> string \<Rightarrow> bool"
  fnmatch :: "string \<Rightarrow> string \<Rightarrow> bool"
  relpath :: "string \<Rightarrow> string"
  normpath :: "string \<Rightarrow> string"
  format_config_dir :: "string \<Rightarrow> string \<Rightarrow> exn + string"
  parse :: "string \<Rightarrow> raw_output \<Rightarrow> exn + diagnostic list"
  set_hash :: "string \<Rightarrow> nat"

text \<open>Iterating a Python set: some order of its elements, fixed by the hash.\<close>

definition py_iter :: "'w env \<Rightarrow> string list \<Rightarrow> string list" where
  "py_iter env xs = sort_key (set_hash env) xs"

definition tree_at :: "'w env \<Rightarrow> 'w \<Rightarrow> string \<Rightarrow> tree option" where
  "tree_at env w p = (if p = getcwd env then Some (cwd_tree env w) else other_tree env w p)"

text \<open>\<open>os.listdir(path)\<close>: raises when the directory does not exist.\<close>

definition listdir :: "'w env \<Rightarrow> 'w \<Rightarrow> string \<Rightarrow> exn + string list" where
  "listdir env w p =
     (case tree_at env w p of
        None \<Rightarrow> Inl OSError
      | Some t \<Rightarrow> Inr (map fst (subdirs t) @ filenames t))"

text \<open>\<open>path or os.getcwd()\<close>.\<close>

definition path_or_cwd :: "'w env \<Rightarrow> string option \<Rightarrow> string" where
  "path_or_cwd env path =
     (case path of None \<Rightarrow> getcwd env | Some p \<Rightarrow> if p = [] then getcwd env else p)"

section \<open>The scanner\<close>

text \<open>
  \<open>os.path.relpath(path)\<close>: \<^verbatim>\<open>if not path: raise ValueError("no path specified")\<close>;
  of any other path it returns the path relative to the working directory.
\<close>

definition os_path_relpath :: "'w env \<Rightarrow> string \<Rightarrow> exn + string" where
  "os_path_relpath env path = (if path = [] then Inl ValueError else Inr (relpath env path))"

text \<open>
  \<open>should_ignore_path\<close> for a list of rules: the loop returns at the first rule that
  matches in one of the four ways. \<open>os.path.relpath(path)\<close> is the first thing each round
  evaluates, so with an empty path the first round raises; with no rule there is no round.
\<close>

fun should_ignore_path :: "'w env \<Rightarrow> string \<Rightarrow> string list \<Rightarrow> exn + bool" where
  "should_ignore_path env path [] = Inr False"
| "should_ignore_path env path (ignore_path # rest) =
     (case os_path_relpath env path of
        Inl e \<Rightarrow> Inl e
      | Inr relative \<Rightarrow>
          if prefix ignore_path relative
             \<or> prefix ignore_path path
             \<or> fnmatch env path ignore_path
             \<or> ignore_path \<in> set (split_on CHR ''/'' path)
          then Inr True
          else should_ignore_path env path rest)"

text \<open>The same call when the rules may be \<open>None\<close>: iterating \<open>None\<close> raises.\<close>

definition should_ignore_path_opt :: "'w env \<Rightarrow> string \<Rightarrow> string list option \<Rightarrow> exn + bool" where
  "should_ignore_path_opt env path ignore_paths =
     (case ignore_paths of
        None \<Rightarrow> Inl TypeError
      | Some rules \<Rightarrow> should_ignore_path env path rules)"

text \<open>
  The pruning of \<open>all_filenames_in_dir\<close>:
  \<^verbatim>\<open>
  try:
      for ignore in ignore_paths:
          dirnames.remove(ignore)
  except ValueError:
      pass
  \<close>
  The first rule that is not among \<open>dirnames\<close> raises \<open>ValueError\<close> and ends the loop.
\<close>

fun remove_ignored :: "string list \<Rightarrow> string list \<Rightarrow> string list" where
  "remove_ignored [] dirnames = dirnames"
| "remove_ignored (ignore # rest) dirnames =
     (if ignore \<in> set dirnames then remove_ignored rest (remove1 ignore dirnames)
      else dirnames)"

text \<open>
  \<open>os.walk(path, topdown=True)\<close> together with what the loop body does to \<open>dirnames\<close>:
  each directory is yielded as \<open>(root, dirnames, filenames)\<close>, the body edits
  \<open>dirnames\<close>, and the walk descends into the names that are left.
\<close>

fun os_walk :: "(string list \<Rightarrow> string list) \<Rightarrow> string \<Rightarrow> tree
                  \<Rightarrow> (string \<times> string list \<times> string list) list" where
  "os_walk edit root (Dir ds fs) =
     (root, edit (map fst ds), fs) #
       concat (map (\<lambda>d. if fst d \<in> set (edit (map fst ds))
                         then os_walk edit (path_join root (fst d)) (snd d) else []) ds)"

text \<open>
  \<open>all_filenames_in_dir\<close>: the body of the loop over the walk, for one directory that
  the walk yields (after the pruning), and the loop. An exception of
  \<open>should_ignore_path\<close> is outside the \<open>try\<close> of the pruning and leaves the function.
\<close>

definition walk_body ::
    "'w env \<Rightarrow> 'w \<Rightarrow> string list \<Rightarrow> string \<times> string list \<times> string list \<Rightarrow> exn + string list" where
  "walk_body env w rules yielded =
     (case yielded of (root, dirnames, fnames) \<Rightarrow>
        (case should_ignore_path env root rules of
           Inl e \<Rightarrow> Inl e
         | Inr ignored \<Rightarrow>
             Inr (if ignored then []
                  else filter (is_text env w) (map (path_join root) fnames))))"

definition all_filenames_in_dir ::
    "'w env \<Rightarrow> 'w \<Rightarrow> string option \<Rightarrow> string list option \<Rightarrow> exn + string list" where
  "all_filenames_in_dir env w path ignore_paths =
     (case tree_at env w (path_or_cwd env path) of
        None \<Rightarrow> Inr []
      | Some t \<Rightarrow>
          (case ignore_paths of
             None \<Rightarrow> Inl TypeError
           | Some rules \<Rightarrow>
               (case traverse (walk_body env w rules)
                       (os_walk (remove_ignored rules) (path_or_cwd env path) t) of
                  Inl e \<Rightarrow> Inl e
                | Inr found \<Rightarrow> Inr (remdups (concat found)))))"

section \<open>The selector\<close>

definition dotfiles_exist :: "'w env \<Rightarrow> 'w \<Rightarrow> config \<Rightarrow> string option \<Rightarrow> exn + bool" where
  "dotfiles_exist env w cfg path =
     (if dotfiles cfg = [] then Inr False
      else (case listdir env w (path_or_cwd env path) of
              Inl e \<Rightarrow> Inl e
            | Inr names \<Rightarrow> Inr (list_ex (\<lambda>dotfile. strip dotfile \<in> set names) (dotfiles cfg))))"

definition should_autorun :: "'w env \<Rightarrow> config \<Rightarrow> string list \<Rightarrow> exn + bool" where
  "should_autorun env cfg fnames =
     (if autorun cfg
      then (case map_of PATTERNS (language cfg) of
              None \<Rightarrow> Inl TypeError
            | Some patterns \<Rightarrow>
                Inr (list_ex (\<lambda>pattern. filter (\<lambda>f. fnmatch env f pattern) fnames \<noteq> []) patterns))
      else Inr False)"

text \<open>The loop of the branch \<open>if not autorun\<close>.\<close>

fun explicit_loop :: "string list \<Rightarrow> registry \<Rightarrow> string list \<Rightarrow> string list" where
  "explicit_loop enabled [] linters = linters"
| "explicit_loop enabled ((linter, cfg) # rest) linters =
     explicit_loop enabled rest
       (if linter \<in> set enabled then py_add linter linters else linters)"

text \<open>The first loop of the autorun branch, over \<open>dotfilefound\<close> and \<open>linters\<close>.\<close>

fun marker_loop :: "'w env \<Rightarrow> 'w \<Rightarrow> string list \<Rightarrow> registry
      \<Rightarrow> (string \<rightharpoonup> bool) \<times> string list \<Rightarrow> exn + (string \<rightharpoonup> bool) \<times> string list" where
  "marker_loop env w disabled [] acc = Inr acc"
| "marker_loop env w disabled ((linter, cfg) # rest) (dotfilefound, linters) =
     (case dotfiles_exist env w cfg None of
        Inl e \<Rightarrow> Inl e
      | Inr found \<Rightarrow>
          (let dotfilefound1 =
                 (if found then dotfilefound(language cfg \<mapsto> True) else dotfilefound);
               linters1 =
                 (if found \<and> run_if_dotfile_in_root cfg = Some True \<and> linter \<notin> set disabled
                  then py_add linter linters else linters);
               linters2 =
                 (if dotfilefound1 (language cfg) = Some True \<and> autorun cfg
                     \<and> linter \<notin> set disabled
                  then py_add linter linters1 else linters1)
           in marker_loop env w disabled rest (dotfilefound1, linters2)))"

text \<open>The second loop of the autorun branch.\<close>

fun pattern_loop :: "'w env \<Rightarrow> string list \<Rightarrow> string list \<Rightarrow> (string \<rightharpoonup> bool)
      \<Rightarrow> string list \<Rightarrow> registry \<Rightarrow> string list \<Rightarrow> exn + string list" where
  "pattern_loop env enabled disabled dotfilefound fnames [] linters = Inr linters"
| "pattern_loop env enabled disabled dotfilefound fnames ((linter, cfg) # rest) linters =
     (case (if linter \<in> set enabled then Inr True
            else if dotfilefound (language cfg) = Some True then Inr False
            else should_autorun env cfg fnames) of
        Inl e \<Rightarrow> Inl e
      | Inr chosen \<Rightarrow>
          pattern_loop env enabled disabled dotfilefound fnames rest
            (if chosen \<and> linter \<notin> set disabled then py_add linter linters else linters))"

definition linters_to_run ::
    "'w env \<Rightarrow> registry \<Rightarrow> 'w \<Rightarrow> bool \<Rightarrow> string list option \<Rightarrow> string list option
       \<Rightarrow> string list option \<Rightarrow> exn + string list" where
  "linters_to_run env reg w autorun_mode ignore_paths enabled_linters disabled_linters =
     (let enabled = extend_csv (case enabled_linters of None \<Rightarrow> [] | Some xs \<Rightarrow> xs);
          disabled = extend_csv (case disabled_linters of None \<Rightarrow> [] | Some xs \<Rightarrow> xs)
      in if \<not> autorun_mode then Inr (explicit_loop enabled reg [])
         else (case marker_loop env w disabled reg (Map.empty, []) of
                 Inl e \<Rightarrow> Inl e
               | Inr (dotfilefound, linters) \<Rightarrow>
                   (case all_filenames_in_dir env w (Some (getcwd env)) ignore_paths of
                      Inl e \<Rightarrow> Inl e
                    | Inr fnames \<Rightarrow>
                        pattern_loop env enabled disabled dotfilefound fnames reg linters)))"

section \<open>Diagnostics\<close>

text \<open>
  Modelled from the spec: the class \<open>message.Messages\<close> (its constructor,
  \<open>add_messages\<close> and \<open>get_messages\<close>) is not among the source files. The spec
  describes the DiagnosticSet as a set, unique by value and unordered, and the merge as set
  union.
\<close>

definition Messages :: "diagnostic set" where
  "Messages = {}"

definition add_messages :: "diagnostic set \<Rightarrow> diagnostic set \<Rightarrow> diagnostic set" where
  "add_messages messages new_messages = messages \<union> new_messages"

definition get_messages :: "diagnostic set \<Rightarrow> diagnostic set" where
  "get_messages messages = messages"

section \<open>The runner\<close>

text \<open>
  The state of a \<open>LinterRunner\<close>: the installs already tried, the world, and a record of
  what was done. The record is not a variable of the program: it lists each command given to
  \<open>run_command\<close>, with the place of the call, and each reading of the stop signal.
\<close>

datatype site = PerfHack | TrustedInstall | HelpProbe | InstallCmd | RunProject | RunFile

datatype event = Exec site "string list" | StopCheck

record 'w runner =
  previous_install_commands :: "string list list"
  world :: 'w
  trace :: "event list"

definition run_command ::
    "'w env \<Rightarrow> site \<Rightarrow> string list \<Rightarrow> 'w runner \<Rightarrow> (exn + int \<times> string) \<times> 'w runner" where
  "run_command env origin command s =
     (case spawn env (world s) command of
        (r, w') \<Rightarrow>
          (let s' = s\<lparr>world := w', trace := trace s @ [Exec origin command]\<rparr>
           in case r of
                Inl e \<Rightarrow> (Inl e, s')
              | Inr (returncode, out, err) \<Rightarrow>
                  (Inr (returncode, strip (out @ CHR 0x0A # err)), s')))"

text \<open>\<open>except Exception: pass\<close> around the one command.\<close>

definition performance_hacks :: "'w env \<Rightarrow> 'w runner \<Rightarrow> 'w runner" where
  "performance_hacks env s = snd (run_command env PerfHack [''npm'', ''set'', ''progress=false''] s)"

definition cleanup :: "'w env \<Rightarrow> 'w runner \<Rightarrow> 'w runner" where
  "cleanup env s = s\<lparr>world := fold (rmtree env) INSTALL_DIRS (world s)\<rparr>"

definition installed :: "'w env \<Rightarrow> config \<Rightarrow> 'w runner \<Rightarrow> (exn + bool) \<times> 'w runner" where
  "installed env cfg s =
     (case run_command env HelpProbe (help_cmd cfg) s of
        (Inr (returncode, _), s') \<Rightarrow> (Inr (returncode = 0), s')
      | (Inl e, s') \<Rightarrow>
          (if e = CalledProcessError \<or> e = OSError then (Inr False, s') else (Inl e, s')))"

text \<open>The loop of \<open>install_linter\<close> over the install commands that are left.\<close>

fun install_loop ::
    "'w env \<Rightarrow> config \<Rightarrow> string list list \<Rightarrow> 'w runner \<Rightarrow> (exn + unit) \<times> 'w runner" where
  "install_loop env cfg [] s = (Inr (), s)"
| "install_loop env cfg (install_cmd # rest) s =
     (if install_cmd \<in> set (previous_install_commands s) then install_loop env cfg rest s
      else
        (case installed env cfg
                (s\<lparr>previous_install_commands := previous_install_commands s @ [install_cmd]\<rparr>) of
           (Inl e, s1) \<Rightarrow> (Inl e, s1)
         | (Inr True, s1) \<Rightarrow> (Inr (), s1)
         | (Inr False, s1) \<Rightarrow>
             (case run_command env InstallCmd install_cmd s1 of
                (Inl e, s2) \<Rightarrow>
                  (if e = OSError then install_loop env cfg rest s2 else (Inl e, s2))
              | (Inr _, s2) \<Rightarrow> install_loop env cfg rest s2)))"

definition install_linter :: "'w env \<Rightarrow> config \<Rightarrow> 'w runner \<Rightarrow> (exn + unit) \<times> 'w runner" where
  "install_linter env cfg s = install_loop env cfg (install cfg) s"

text \<open>The loop of \<open>install_trusted\<close>: only \<open>OSError\<close> is caught.\<close>

fun trusted_loop :: "'w env \<Rightarrow> string list list \<Rightarrow> 'w runner \<Rightarrow> (exn + unit) \<times> 'w runner" where
  "trusted_loop env [] s = (Inr (), s)"
| "trusted_loop env (install_cmd # rest) s =
     (case run_command env TrustedInstall install_cmd s of
        (Inl e, s1) \<Rightarrow> (if e = OSError then trusted_loop env rest s1 else (Inl e, s1))
      | (Inr _, s1) \<Rightarrow> trusted_loop env rest s1)"

definition install_trusted :: "'w env \<Rightarrow> 'w runner \<Rightarrow> (exn + unit) \<times> 'w runner" where
  "install_trusted env s = trusted_loop env (TRUSTED_INSTALL (sys_executable env)) s"

definition run_config :: "'w env \<Rightarrow> 'w \<Rightarrow> config \<Rightarrow> string option \<Rightarrow> exn + string list" where
  "run_config env w cfg config_dir =
     (case dotfiles_exist env w cfg None of
        Inl e \<Rightarrow> Inl e
      | Inr in_root \<Rightarrow>
          if in_root \<and> run cfg \<noteq> [] then Inr (run cfg)
          else
            (case (case config_dir of
                     None \<Rightarrow> Inr (bundled_config_dir env)
                   | Some d \<Rightarrow>
                       if d = [] then Inr (bundled_config_dir env)
                       else (case dotfiles_exist env w cfg (Some d) of
                               Inl e \<Rightarrow> Inl e
                             | Inr there \<Rightarrow> Inr (if there then d else bundled_config_dir env))) of
               Inl e \<Rightarrow> Inl e
             | Inr dir \<Rightarrow>
                 traverse
                   (\<lambda>item. case format_config_dir env item dir of
                              Inl e \<Rightarrow> Inl e
                            | Inr formatted \<Rightarrow>
                                Inr (if contains ''...'' item then formatted
                                     else normpath env formatted))
                   (if rundefault cfg \<noteq> [] then rundefault cfg else run cfg)))"

text \<open>
  The per-file dispatch. Every task is created before the first one is awaited, so every
  command is spawned; the tasks are taken here one after the other, in the order of their
  creation. Awaiting them in that order raises the exception of the first task that failed.
\<close>

fun spawn_tasks ::
    "'w env \<Rightarrow> string list list \<Rightarrow> 'w runner \<Rightarrow> (exn + int \<times> string) list \<times> 'w runner" where
  "spawn_tasks env [] s = ([], s)"
| "spawn_tasks env (run_cmd # rest) s =
     (case run_command env RunFile run_cmd s of
        (r, s1) \<Rightarrow> (case spawn_tasks env rest s1 of (rs, s2) \<Rightarrow> (r # rs, s2)))"

fun await_tasks ::
    "string list list \<Rightarrow> (exn + int \<times> string) list \<Rightarrow> exn + (string \<times> string) list" where
  "await_tasks (run_cmd # cmds) (r # rs) =
     (case r of
        Inl e \<Rightarrow> Inl e
      | Inr (_, out) \<Rightarrow>
          (case await_tasks cmds rs of
             Inl e \<Rightarrow> Inl e
           | Inr results \<Rightarrow> Inr ((last run_cmd, strip out) # results)))"
| "await_tasks _ _ = Inr []"

definition run_per_file_task ::
    "'w env \<Rightarrow> config \<Rightarrow> string list option \<Rightarrow> string option \<Rightarrow> string option \<Rightarrow> 'w runner
       \<Rightarrow> (exn + (string \<times> string) list) \<times> 'w runner" where
  "run_per_file_task env cfg ignore_paths path config_dir s =
     (let rules = (case ignore_paths of None \<Rightarrow> [] | Some r \<Rightarrow> r);
          p = path_or_cwd env path
      in case run_config env (world s) cfg config_dir of
           Inl e \<Rightarrow> (Inl e, s)
         | Inr cmd \<Rightarrow>
             (case all_filenames_in_dir env (world s) (Some p) (Some rules) of
                Inl e \<Rightarrow> (Inl e, s)
              | Inr paths \<Rightarrow>
                  (case map_of PATTERNS (language cfg) of
                     None \<Rightarrow> (Inl TypeError, s)
                   | Some patterns \<Rightarrow>
                       (let run_cmds =
                              concat (map
                                (\<lambda>pattern.
                                   map (\<lambda>filepath. cmd @ [filepath])
                                     (filter (is_text env (world s))
                                        (filter (\<lambda>f. fnmatch env f pattern) (py_iter env paths))))
                                patterns)
                        in case spawn_tasks env run_cmds s of
                             (results, s') \<Rightarrow> (await_tasks run_cmds results, s')))))"

text \<open>
  The body of the first \<open>try\<close> of the loop of \<open>run_linters\<close>, for the entry
  \<open>LINTERS.get(linter)\<close>. The call \<open>self.run_per_file(config, ignore_paths, config_dir)\<close>
  is positional: \<open>config_dir\<close> arrives as the parameter \<open>path\<close>.
\<close>

definition exec_linter ::
    "'w env \<Rightarrow> bool \<Rightarrow> bool \<Rightarrow> string list option \<Rightarrow> string option \<Rightarrow> config option
       \<Rightarrow> 'w runner \<Rightarrow> (exn + raw_output) \<times> 'w runner" where
  "exec_linter env install_mode autorun_mode ignore_paths config_dir entry s =
     (case entry of
        None \<Rightarrow> (Inl AttributeError, s)
      | Some cfg \<Rightarrow>
          (case (if (install_mode \<or> autorun_mode) \<and> install cfg \<noteq> []
                 then install_linter env cfg s else (Inr (), s)) of
             (Inl e, s1) \<Rightarrow> (Inl e, s1)
           | (Inr _, s1) \<Rightarrow>
               if run_per_file cfg
               then (case run_per_file_task env cfg ignore_paths config_dir None s1 of
                       (Inl e, s2) \<Rightarrow> (Inl e, s2)
                     | (Inr results, s2) \<Rightarrow> (Inr (PerFile results), s2))
               else (case run_config env (world s1) cfg config_dir of
                       Inl e \<Rightarrow> (Inl e, s1)
                     | Inr cmd \<Rightarrow>
                         (case run_command env RunProject cmd s1 of
                            (Inl e, s2) \<Rightarrow> (Inl e, s2)
                          | (Inr (_, out), s2) \<Rightarrow> (Inr (Text (strip out)), s2)))))"

text \<open>The first \<open>try ... except Exception\<close>: on an exception \<open>output\<close> is still \<open>""\<close>.\<close>

definition run_linter ::
    "'w env \<Rightarrow> bool \<Rightarrow> bool \<Rightarrow> string list option \<Rightarrow> string option \<Rightarrow> config option
       \<Rightarrow> 'w runner \<Rightarrow> raw_output \<times> 'w runner" where
  "run_linter env install_mode autorun_mode ignore_paths config_dir entry s =
     (case exec_linter env install_mode autorun_mode ignore_paths config_dir entry s of
        (Inl e, s1) \<Rightarrow> (Text [], s1)
      | (Inr out, s1) \<Rightarrow> (out, s1))"

text \<open>
  The set comprehension of the second \<open>try\<close>: each message is tested against the ignore
  rules and its text gets the name of the linter in front.
\<close>

fun prefixed_messages ::
    "'w env \<Rightarrow> string \<Rightarrow> string list option \<Rightarrow> diagnostic list \<Rightarrow> exn + diagnostic list" where
  "prefixed_messages env linter ignore_paths [] = Inr []"
| "prefixed_messages env linter ignore_paths ((path, pos, content) # rest) =
     (case should_ignore_path_opt env path ignore_paths of
        Inl e \<Rightarrow> Inl e
      | Inr ignored \<Rightarrow>
          (case prefixed_messages env linter ignore_paths rest of
             Inl e \<Rightarrow> Inl e
           | Inr kept \<Rightarrow>
               Inr (if ignored then kept else (path, pos, linter @ '': '' @ content) # kept)))"

definition linter_messages ::
    "'w env \<Rightarrow> string list option \<Rightarrow> string \<Rightarrow> config option \<Rightarrow> raw_output
       \<Rightarrow> exn + diagnostic set" where
  "linter_messages env ignore_paths linter entry out =
     (case entry of
        None \<Rightarrow> Inl AttributeError
      | Some cfg \<Rightarrow>
          (case parse env (parser cfg) out of
             Inl e \<Rightarrow> Inl e
           | Inr parsed \<Rightarrow>
               (case prefixed_messages env linter ignore_paths parsed of
                  Inl e \<Rightarrow> Inl e
                | Inr kept \<Rightarrow> Inr (set kept))))"

text \<open>The second \<open>try ... except Exception\<close>, under \<open>if output\<close>.\<close>

definition parse_linter ::
    "'w env \<Rightarrow> string list option \<Rightarrow> string \<Rightarrow> config option \<Rightarrow> raw_output
       \<Rightarrow> diagnostic set \<Rightarrow> diagnostic set" where
  "parse_linter env ignore_paths linter entry out messages =
     (if truthy out
      then (case linter_messages env ignore_paths linter entry out of
              Inl e \<Rightarrow> messages
            | Inr new \<Rightarrow> add_messages messages new)
      else messages)"

text \<open>The loop of \<open>run_linters\<close> over the selected linters that are left.\<close>

fun run_linters_loop ::
    "'w env \<Rightarrow> registry \<Rightarrow> bool \<Rightarrow> bool \<Rightarrow> string list option \<Rightarrow> string option
       \<Rightarrow> string list \<Rightarrow> 'w runner \<Rightarrow> diagnostic set \<Rightarrow> diagnostic set \<times> 'w runner" where
  "run_linters_loop env reg install_mode autorun_mode ignore_paths config_dir [] s messages =
     (get_messages messages, s)"
| "run_linters_loop env reg install_mode autorun_mode ignore_paths config_dir (linter # rest)
       s messages =
     (if should_stop env (world s)
      then (get_messages messages, s\<lparr>trace := trace s @ [StopCheck]\<rparr>)
      else
        (case run_linter env install_mode autorun_mode ignore_paths config_dir
                (map_of reg linter) (s\<lparr>trace := trace s @ [StopCheck]\<rparr>) of
           (out, s1) \<Rightarrow>
             run_linters_loop env reg install_mode autorun_mode ignore_paths config_dir rest s1
               (parse_linter env ignore_paths linter (map_of reg linter) out messages)))"

text \<open>
  \<open>run_linters\<close>. The line \<open>self.install_trusted()\<close> calls a coroutine function without
  \<open>await\<close>: the coroutine is made and dropped, its body does not run.
\<close>

definition run_linters ::
    "'w env \<Rightarrow> registry \<Rightarrow> 'w runner \<Rightarrow> bool \<Rightarrow> bool \<Rightarrow> string list option \<Rightarrow> string option
       \<Rightarrow> string list option \<Rightarrow> string list option \<Rightarrow> bool
       \<Rightarrow> (exn + diagnostic set) \<times> 'w runner" where
  "run_linters env reg s install_mode autorun_mode ignore_paths config_dir enabled_linters
       disabled_linters trusted =
     (let messages = Messages;
          s1 = cleanup env s;
          s2 = performance_hacks env s1;
          never_awaited =
            (if trusted \<and> (install_mode \<or> autorun_mode) then Some (install_trusted env) else None)
      in case linters_to_run env reg (world s2) autorun_mode ignore_paths enabled_linters
                disabled_linters of
           Inl e \<Rightarrow> (Inl e, s2)
         | Inr selected \<Rightarrow>
             (case run_linters_loop env reg install_mode autorun_mode ignore_paths config_dir
                     (py_iter env selected) s2 messages of
                (result, s3) \<Rightarrow> (Inr result, s3)))"

text \<open>\<open>LinterRunner.__init__\<close>: nothing installed yet, nothing done yet.\<close>

definition LinterRunner :: "'w \<Rightarrow> 'w runner" where
  "LinterRunner w = \<lparr>previous_install_commands = [], world = w, trace = []\<rparr>"

section \<open>An environment for the examples\<close>

text \<open>
  What \<open>fnmatch.fnmatch\<close> does for a pattern of literal characters, \<open>*\<close> and \<open>?\<close>.
\<close>

fun glob_match :: "string \<Rightarrow> string \<Rightarrow> bool" where
  "glob_match [] name = (name = [])"
| "glob_match (p # ps) name =
     (if p = CHR ''*''
      then (case name of
              [] \<Rightarrow> glob_match ps []
            | c # cs \<Rightarrow> glob_match ps (c # cs) \<or> glob_match (p # ps) cs)
      else (case name of
              [] \<Rightarrow> False
            | c # cs \<Rightarrow> (p = CHR ''?'' \<or> p = c) \<and> glob_match ps cs))"

text \<open>
  What \<open>item.format(config_dir=dir)\<close> does for an item whose only replacement field is
  \<open>{config_dir}\<close>, as in every command-line of \<open>LINTERS\<close>.
\<close>

fun replace_config_dir :: "string \<Rightarrow> string \<Rightarrow> string" where
  "replace_config_dir dir [] = []"
| "replace_config_dir dir (c # cs) =
     (if prefix ''{config_dir}'' (c # cs) then dir @ replace_config_dir dir (drop 11 cs)
      else c # replace_config_dir dir cs)"

text \<open>
  A project in \<open>/proj\<close> with the tree \<open>t\<close>. The world is the number of commands spawned
  so far; \<open>respond\<close> gives the result of a command, \<open>stop\<close> the stop signal and
  \<open>parsers\<close> the parsers.
\<close>

definition example_env ::
    "tree \<Rightarrow> (nat \<Rightarrow> string list \<Rightarrow> exn + int \<times> string \<times> string) \<Rightarrow> (nat \<Rightarrow> bool)
       \<Rightarrow> (string \<Rightarrow> raw_output \<Rightarrow> exn + diagnostic list) \<Rightarrow> nat env" where
  "example_env t respond stop parsers =
     \<lparr>sys_executable = ''/usr/bin/python3'',
      getcwd = ''/proj'',
      bundled_config_dir = ''/opt/inlineplz/config'',
      spawn = (\<lambda>w command. (respond w command, Suc w)),
      should_stop = stop,
      cwd_tree = (\<lambda>w. t),
      other_tree = (\<lambda>w p. None),
      rmtree = (\<lambda>d w. w),
      is_text = (\<lambda>w p. True),
      fnmatch = (\<lambda>name pattern. glob_match pattern name),
      relpath = (\<lambda>p. if prefix ''/proj/'' p then drop 6 p else p),
      normpath = (\<lambda>p. p),
      format_config_dir = (\<lambda>item dir. Inr (replace_config_dir dir item)),
      parse = parsers,
      set_hash = (\<lambda>l. 0)\<rparr>"

text \<open>A project whose root holds the files \<open>names\<close> and nothing else.\<close>

definition project_with :: "string list \<Rightarrow> nat env" where
  "project_with names =
     example_env (Dir [] names) (\<lambda>w c. Inr (0, [], [])) (\<lambda>w. False) (\<lambda>p out. Inr [])"

text \<open>
  A project with a Python file, a JavaScript file and a directory \<open>node_modules\<close>;
  the parsers of \<open>bandit\<close> and \<open>eslint\<close> report findings whatever the output is, the
  one of \<open>eslint\<close> the same finding twice and one under \<open>node_modules\<close>.
\<close>

definition example_parsers :: "string \<Rightarrow> raw_output \<Rightarrow> exn + diagnostic list" where
  "example_parsers parser_name out =
     (if parser_name = ''BanditParser'' then Inr [(''app.py'', 3, ''B101 assert used'')]
      else if parser_name = ''ESLintParser''
      then Inr [(''app.js'', 1, ''Missing semicolon''),
                (''app.js'', 1, ''Missing semicolon''),
                (''node_modules/x.js'', 2, ''no-undef'')]
      else Inr [])"

definition lint_project ::
    "(nat \<Rightarrow> string list \<Rightarrow> exn + int \<times> string \<times> string) \<Rightarrow> (nat \<Rightarrow> bool) \<Rightarrow> nat env" where
  "lint_project respond stop =
     example_env (Dir [(''node_modules'', Dir [] [''x.js''])] [''app.py'', ''app.js''])
       respond stop example_parsers"

text \<open>Every command succeeds and prints a report.\<close>

definition all_succeed :: "nat \<Rightarrow> string list \<Rightarrow> exn + int \<times> string \<times> string" where
  "all_succeed w command = Inr (0, ''report'', [])"

text \<open>The program \<open>bandit\<close> is not there: spawning it raises \<open>OSError\<close>.\<close>

definition bandit_missing :: "nat \<Rightarrow> string list \<Rightarrow> exn + int \<times> string \<times> string" where
  "bandit_missing w command =
     (if take 1 command = [''bandit''] then Inl OSError else Inr (0, ''report'', []))"

text \<open>Help probes fail (the tool is not installed); every other command succeeds.\<close>

definition not_installed :: "nat \<Rightarrow> string list \<Rightarrow> exn + int \<times> string \<times> string" where
  "not_installed w command =
     (if drop 1 command = [''--help''] then Inr (1, [], []) else Inr (0, ''report'', []))"

text \<open>A registry of two tools whose install lists hold the same command-line.\<close>

definition shared_install_registry :: registry where
  "shared_install_registry =
     [(''first'',
       \<lparr>install = [[''npm'', ''install'', ''shared-plugin'']],
        help_cmd = [''first'', ''--help''],
        run = [''first'', ''.''],
        rundefault = [''first'', ''.''],
        dotfiles = [],
        parser = ''BanditParser'',
        language = ''python'',
        autorun = True,
        run_per_file = False,
        run_if_dotfile_in_root = None,
        concurrency = None\<rparr>),
      (''second'',
       \<lparr>install = [[''npm'', ''install'', ''shared-plugin'']],
        help_cmd = [''second'', ''--help''],
        run = [''second'', ''.''],
        rundefault = [''second'', ''.''],
        dotfiles = [],
        parser = ''ESLintParser'',
        language = ''javascript'',
        autorun = True,
        run_per_file = False,
        run_if_dotfile_in_root = None,
        concurrency = None\<rparr>)]"

text \<open>
  No program is there: every command exits with status 1 and prints nothing.
\<close>

definition nothing_there :: "nat \<Rightarrow> string list \<Rightarrow> exn + int \<times> string \<times> string" where
  "nothing_there w command = Inr (1, [], [])"

text \<open>
  The entry \<open>gometalinter\<close> of \<open>LINTERS\<close>, whose help command-line is also the second of
  its install command-lines, and a second tool that is installed by that command-line.
\<close>

definition gometalinter_registry :: registry where
  "gometalinter_registry =
     [(''gometalinter'', cfg_gometalinter),
      (''gometalinter-extra'',
       \<lparr>install = [[''gometalinter'', ''--install'', ''--update'']],
        help_cmd = [''gometalinter-extra'', ''--help''],
        run = [''gometalinter-extra'', ''./...''],
        rundefault = [''gometalinter-extra'', ''./...''],
        dotfiles = [],
        parser = ''GometalinterParser'',
        language = ''go'',
        autorun = True,
        run_per_file = False,
        run_if_dotfile_in_root = None,
        concurrency = None\<rparr>)]"

section \<open>Reading the record of a run\<close>

text \<open>The commands that \<open>install_linter\<close> gave to \<open>run_command\<close> as installs.\<close>

fun install_cmds_of :: "event list \<Rightarrow> string list list" where
  "install_cmds_of [] = []"
| "install_cmds_of (Exec origin command # rest) =
     (if origin = InstallCmd then command # install_cmds_of rest else install_cmds_of rest)"
| "install_cmds_of (StopCheck # rest) = install_cmds_of rest"

text \<open>Every command-line that reached \<open>run_command\<close>, whatever the call site.\<close>

fun commands_of :: "event list \<Rightarrow> string list list" where
  "commands_of [] = []"
| "commands_of (Exec origin command # rest) = command # commands_of rest"
| "commands_of (StopCheck # rest) = commands_of rest"

text \<open>An event of the work on one tool: a help probe, an install or a run.\<close>

fun tool_event :: "event \<Rightarrow> bool" where
  "tool_event (Exec origin command) =
     (origin = HelpProbe \<or> origin = InstallCmd \<or> origin = RunProject \<or> origin = RunFile)"
| "tool_event StopCheck = False"

text \<open>
  What the ledger keeps true: no command was installed twice, and every installed command
  is in \<open>previous_install_commands\<close>.
\<close>

definition ledger_inv :: "'w runner \<Rightarrow> bool" where
  "ledger_inv s =
     (distinct (install_cmds_of (trace s))
      \<and> set (install_cmds_of (trace s)) \<subseteq> set (previous_install_commands s))"

section \<open>Facts about the registry and the Python values\<close>

lemma set_py_add: "set (py_add x xs) = insert x (set xs)"
  by (auto simp: py_add_def)

lemma distinct_py_add: "distinct xs \<Longrightarrow> distinct (py_add x xs)"
  by (simp add: py_add_def)

lemma split_on_comma_example: "split_on CHR '','' ''eslint,jscs'' = [''eslint'', ''jscs'']"
  by simp

section \<open>The selector without autorun\<close>

lemma set_explicit_loop:
  "set (explicit_loop enabled reg acc) = set acc \<union> (fst ` set reg \<inter> set enabled)"
  by (induction enabled reg acc rule: explicit_loop.induct) (auto simp: set_py_add)

lemma distinct_explicit_loop:
  "distinct acc \<Longrightarrow> distinct (explicit_loop enabled reg acc)"
  by (induction enabled reg acc rule: explicit_loop.induct) (auto simp: distinct_py_add)

lemma explicit_result:
  "linters_to_run env reg w False ignore_paths enabled_linters disabled_linters =
     Inr (explicit_loop
            (extend_csv (case enabled_linters of None \<Rightarrow> [] | Some xs \<Rightarrow> xs)) reg [])"
  by (simp add: linters_to_run_def Let_def)

text \<open>
  C6. Without autorun, \<open>linters_to_run\<close> returns, for every environment, ignore list and
  disabled list, exactly the registry tools that are named in the enabled list, where the
  list also counts the comma-separated parts of its first element. Nothing else is
  consulted: neither marker files nor patterns nor the \<open>autorun\<close> flag of a tool.
\<close>

theorem explicit_selection:
  "\<exists>selected.
     linters_to_run env reg w False ignore_paths enabled_linters disabled_linters = Inr selected
     \<and> distinct selected
     \<and> set selected =
         fst ` set reg \<inter>
           (case enabled_linters of
              None \<Rightarrow> {}
            | Some [] \<Rightarrow> {}
            | Some (first # others) \<Rightarrow>
                set (first # others) \<union> set (split_on CHR '','' first))"
  unfolding explicit_result
  by (auto simp: set_explicit_loop distinct_explicit_loop extend_csv_def
      split: option.split list.split)

lemma explicit_selection_example:
  "linters_to_run (example_env (Dir [] [''.eslintrc'']) (\<lambda>w c. Inr (0, [], [])) (\<lambda>w. False)
       (\<lambda>p out. Inr []))
     (LINTERS ''/usr/bin/python3'' (\<lambda>p. p) ''/proj'') 0 False None (Some [''jscs,bandit''])
     (Some [''bandit''])
   = Inr [''bandit'', ''jscs'']"
  unfolding explicit_result
  by (simp add: LINTERS_def extend_csv_def py_add_def)

theorem explicit_selection_witness:
  "\<exists>selected.
     linters_to_run (example_env (Dir [] [''.eslintrc'']) (\<lambda>w c. Inr (0, [], [])) (\<lambda>w. False)
         (\<lambda>p out. Inr []))
       (LINTERS ''/usr/bin/python3'' (\<lambda>p. p) ''/proj'') 0 False None (Some [''jscs,bandit''])
       (Some [''bandit''])
     = Inr selected
     \<and> selected = [''bandit'', ''jscs'']
     \<and> set selected =
         fst ` set (LINTERS ''/usr/bin/python3'' (\<lambda>p. p) ''/proj'') \<inter>
           (set [''jscs,bandit''] \<union> set (split_on CHR '','' ''jscs,bandit''))"
  using explicit_selection [of
      "example_env (Dir [] [''.eslintrc'']) (\<lambda>w c. Inr (0, [], [])) (\<lambda>w. False) (\<lambda>p out. Inr [])"
      "LINTERS ''/usr/bin/python3'' (\<lambda>p. p) ''/proj''" 0 None "Some [''jscs,bandit'']"
      "Some [''bandit'']"]
  unfolding explicit_selection_example
  by simp

text \<open>
  C1. Without autorun the disabled list is not read: a tool that is both enabled and
  disabled is selected. Here \<open>eslint\<close> is enabled and disabled.
\<close>

theorem disabled_ignored_without_autorun:
  "linters_to_run env (LINTERS sys_exe vendored_path cwd) w False ignore_paths
     (Some [''eslint'']) (Some [''eslint'']) = Inr [''eslint'']"
  unfolding explicit_result
  by (simp add: LINTERS_def extend_csv_def py_add_def)

section \<open>The selector with autorun and no ignore list\<close>

lemma dotfiles_exist_cwd: "\<exists>b. dotfiles_exist env w cfg None = Inr b"
  by (auto simp: dotfiles_exist_def listdir_def tree_at_def path_or_cwd_def)

lemma marker_loop_returns: "\<exists>r. marker_loop env w disabled reg acc = Inr r"
proof (induction env w disabled reg acc rule: marker_loop.induct)
  case (1 env w disabled acc)
  then show ?case by simp
next
  case (2 env w disabled linter cfg rest dotfilefound linters)
  obtain b where b: "dotfiles_exist env w cfg None = Inr b"
    using dotfiles_exist_cwd[of env w cfg] by auto
  show ?case using 2[OF b refl refl refl] b by (simp add: Let_def)
qed

lemma scan_without_rules:
  "all_filenames_in_dir env w (Some (getcwd env)) None = Inl TypeError"
  by (simp add: all_filenames_in_dir_def tree_at_def path_or_cwd_def)

lemma linters_to_run_None:
  "linters_to_run env reg w True None enabled_linters disabled_linters = Inl TypeError"
proof -
  define disabled where
    "disabled = extend_csv (case disabled_linters of None \<Rightarrow> [] | Some xs \<Rightarrow> xs)"
  obtain r where "marker_loop env w disabled reg (Map.empty, []) = Inr r"
    using marker_loop_returns[of env w disabled reg "(Map.empty, [])"] by auto
  then show ?thesis
    by (simp add: linters_to_run_def Let_def scan_without_rules disabled_def split: prod.splits)
qed

text \<open>
  C10. With autorun and no ignore list (\<open>None\<close>), the scan of the working directory
  raises \<open>TypeError\<close>; \<open>linters_to_run\<close> does not catch it and neither does
  \<open>run_linters\<close>, whose result is that exception, whatever the registry, the environment
  and the other arguments are.
\<close>

theorem absent_ignore_list_aborts:
  "all_filenames_in_dir env w (Some (getcwd env)) None = Inl TypeError
   \<and> linters_to_run env reg w True None enabled_linters disabled_linters = Inl TypeError
   \<and> fst (run_linters env reg s install_mode True None config_dir enabled_linters
             disabled_linters trusted) = Inl TypeError"
  by (simp add: linters_to_run_None scan_without_rules run_linters_def Let_def)

section \<open>The selector with autorun\<close>

lemma marker_loop_disabled:
  "marker_loop env w disabled reg (f, ls) = Inr (f', ls') \<Longrightarrow>
     set ls' \<subseteq> set ls \<union> (fst ` set reg - set disabled)"
proof (induction env w disabled reg "(f, ls)" arbitrary: f ls rule: marker_loop.induct)
  case (1 env w disabled)
  then show ?case by simp
next
  case (2 env w disabled linter cfg rest f ls)
  from "2.prems" obtain found where found: "dotfiles_exist env w cfg None = Inr found"
    by (cases "dotfiles_exist env w cfg None") auto
  from "2.hyps"[OF found refl refl refl] "2.prems" found show ?case
    by (auto simp: Let_def set_py_add split: if_splits)
qed

lemma pattern_loop_disabled:
  "pattern_loop env enabled disabled f fnames reg ls = Inr ls' \<Longrightarrow>
     set ls' \<subseteq> set ls \<union> (fst ` set reg - set disabled)"
proof (induction env enabled disabled f fnames reg ls rule: pattern_loop.induct)
  case (1 env enabled disabled f fnames ls)
  then show ?case by simp
next
  case (2 env enabled disabled f fnames linter cfg rest ls)
  then show ?case
    by (auto simp: set_py_add split: if_splits sum.splits)
qed

text \<open>
  In autorun mode every add is guarded by the disabled list (with the comma-separated
  parts of its first element): no disabled tool is selected.
\<close>

lemma autorun_excludes_disabled:
  assumes "linters_to_run env reg w True ignore_paths enabled_linters disabled_linters
             = Inr selected"
  shows "set selected \<inter>
           set (extend_csv (case disabled_linters of None \<Rightarrow> [] | Some xs \<Rightarrow> xs)) = {}"
proof -
  define disabled where
    "disabled = extend_csv (case disabled_linters of None \<Rightarrow> [] | Some xs \<Rightarrow> xs)"
  define enabled where
    "enabled = extend_csv (case enabled_linters of None \<Rightarrow> [] | Some xs \<Rightarrow> xs)"
  obtain f ls where m: "marker_loop env w disabled reg (Map.empty, []) = Inr (f, ls)"
    using marker_loop_returns[of env w disabled reg "(Map.empty, [])"] by auto
  from assms m obtain fnames where
    p: "pattern_loop env enabled disabled f fnames reg ls = Inr selected"
    by (auto simp: linters_to_run_def Let_def disabled_def enabled_def split: sum.splits)
  from marker_loop_disabled[OF m] pattern_loop_disabled[OF p] show ?thesis
    unfolding disabled_def by auto
qed

text \<open>
  C3. The loop of lines 770-780 sets \<open>dotfilefound\<close> for the language of a tool whose
  marker file is in the project root and, in the same round, tests \<open>dotfilefound\<close> for the
  tool of that round. So the marker reaches the tools of the language that stand after its
  owner in \<open>LINTERS\<close>, and not the ones before; and the pattern pass then leaves the
  language out. In \<open>LINTERS\<close>, \<open>detect-secrets\<close> and \<open>eclint\<close> share the language \<open>all\<close>,
  only \<open>eclint\<close> declares a marker file, \<open>.editorconfig\<close>, and \<open>detect-secrets\<close> declares
  \<open>autorun\<close> and stands before \<open>eclint\<close>: in a project root that holds \<open>.editorconfig\<close>
  and \<open>app.py\<close>, with nothing disabled, \<open>detect-secrets\<close> is not selected, although it is
  selected when \<open>.editorconfig\<close> is taken away. The same with \<open>bandit\<close> and \<open>prospector\<close>
  (language \<open>python\<close>, \<open>bandit\<close> first): the marker of \<open>bandit\<close> selects both, the marker of
  \<open>prospector\<close> selects \<open>prospector\<close> and drops \<open>bandit\<close>.
\<close>

theorem marker_cascade_misses_earlier_tool:
  "linters_to_run (project_with [''.editorconfig'', ''app.py''])
       (LINTERS ''/usr/bin/python3'' (\<lambda>p. p) ''/proj'') 0 True (Some []) None None
     = Inr [''bandit'', ''prospector'']
   \<and> linters_to_run (project_with [''app.py''])
         (LINTERS ''/usr/bin/python3'' (\<lambda>p. p) ''/proj'') 0 True (Some []) None None
       = Inr [''bandit'', ''detect-secrets'', ''prospector'']
   \<and> linters_to_run (project_with [''bandit.yaml'', ''app.py''])
         (LINTERS ''/usr/bin/python3'' (\<lambda>p. p) ''/proj'') 0 True (Some []) None None
       = Inr [''bandit'', ''prospector'', ''ansible-lint'', ''detect-secrets'', ''yamllint'']
   \<and> linters_to_run (project_with [''.prospector.yaml'', ''app.py''])
         (LINTERS ''/usr/bin/python3'' (\<lambda>p. p) ''/proj'') 0 True (Some []) None None
       = Inr [''prospector'', ''ansible-lint'', ''detect-secrets'', ''yamllint'']
   \<and> filter (\<lambda>name. name \<in> set [''bandit'', ''detect-secrets'', ''eclint'', ''prospector''])
         (map fst (LINTERS ''/usr/bin/python3'' (\<lambda>p. p) ''/proj''))
       = [''bandit'', ''detect-secrets'', ''eclint'', ''prospector'']
   \<and> map_of (LINTERS ''/usr/bin/python3'' (\<lambda>p. p) ''/proj'') ''eclint'' = Some cfg_eclint
   \<and> map_of (LINTERS ''/usr/bin/python3'' (\<lambda>p. p) ''/proj'') ''detect-secrets''
       = Some (cfg_detect_secrets ''/usr/bin/python3'')
   \<and> language cfg_eclint = language (cfg_detect_secrets ''/usr/bin/python3'')
   \<and> dotfiles cfg_eclint = [''.editorconfig'']
   \<and> dotfiles (cfg_detect_secrets ''/usr/bin/python3'') = []
   \<and> autorun (cfg_detect_secrets ''/usr/bin/python3'')
   \<and> language (cfg_bandit ''/usr/bin/python3'') = language (cfg_prospector ''/usr/bin/python3'')
   \<and> dotfiles (cfg_bandit ''/usr/bin/python3'') = [''bandit.yaml'']
   \<and> dotfiles (cfg_prospector ''/usr/bin/python3'') = [''.prospector.yaml'']
   \<and> autorun (cfg_bandit ''/usr/bin/python3'')"
  by code_simp

section \<open>What one tool adds to the record\<close>

lemma install_cmds_of_append:
  "install_cmds_of (xs @ ys) = install_cmds_of xs @ install_cmds_of ys"
  by (induction xs rule: install_cmds_of.induct) auto

lemma install_cmds_of_run_file: "install_cmds_of (map (Exec RunFile) cmds) = []"
  by (induction cmds) auto

lemma run_command_frame:
  "run_command env origin command s = (r, s') \<Longrightarrow>
     trace s' = trace s @ [Exec origin command]
     \<and> previous_install_commands s' = previous_install_commands s"
  by (auto simp: run_command_def Let_def split: prod.splits sum.splits)

lemma installed_frame:
  "installed env cfg s = (r, s') \<Longrightarrow>
     trace s' = trace s @ [Exec HelpProbe (help_cmd cfg)]
     \<and> previous_install_commands s' = previous_install_commands s"
  by (auto simp: installed_def dest!: run_command_frame
      split: prod.splits sum.splits if_splits)

lemma spawn_tasks_frame:
  "spawn_tasks env cmds s = (rs, s') \<Longrightarrow>
     trace s' = trace s @ map (Exec RunFile) cmds
     \<and> previous_install_commands s' = previous_install_commands s"
proof (induction cmds arbitrary: s rs s')
  case Nil
  then show ?case by simp
next
  case (Cons run_cmd rest)
  obtain r s1 where first: "run_command env RunFile run_cmd s = (r, s1)"
    by (cases "run_command env RunFile run_cmd s")
  obtain rs1 s2 where others: "spawn_tasks env rest s1 = (rs1, s2)"
    by (cases "spawn_tasks env rest s1")
  from Cons.prems first others have "s' = s2" by simp
  with Cons.IH[OF others] run_command_frame[OF first]
  show ?case by simp
qed

lemma run_per_file_task_frame:
  "run_per_file_task env cfg ignore_paths path config_dir s = (r, s') \<Longrightarrow>
     \<exists>cmds. trace s' = trace s @ map (Exec RunFile) cmds
     \<and> previous_install_commands s' = previous_install_commands s"
proof -
  assume run: "run_per_file_task env cfg ignore_paths path config_dir s = (r, s')"
  show ?thesis
  proof (cases "\<exists>cmds rs. spawn_tasks env cmds s = (rs, s')")
    case True
    then obtain cmds rs where "spawn_tasks env cmds s = (rs, s')" by blast
    from spawn_tasks_frame[OF this] show ?thesis by blast
  next
    case False
    with run have "s' = s"
      by (auto simp: run_per_file_task_def Let_def
          split: sum.splits option.splits prod.splits)
    then have "trace s' = trace s @ map (Exec RunFile) []
      \<and> previous_install_commands s' = previous_install_commands s" by simp
    then show ?thesis by blast
  qed
qed

lemma list_all_run_file: "list_all tool_event (map (Exec RunFile) cmds)"
  by (induction cmds) auto

lemma install_loop_events:
  "install_loop env cfg cmds s = (r, s') \<Longrightarrow>
     \<exists>evs. trace s' = trace s @ evs \<and> list_all tool_event evs"
proof (induction cmds arbitrary: s r s')
  case Nil
  then show ?case by simp
next
  case (Cons install_cmd rest)
  let ?s0 = "s\<lparr>previous_install_commands := previous_install_commands s @ [install_cmd]\<rparr>"
  show ?case
  proof (cases "install_cmd \<in> set (previous_install_commands s)")
    case True
    with Cons.prems Cons.IH show ?thesis by simp
  next
    case False
    obtain p s1 where probe: "installed env cfg ?s0 = (p, s1)"
      by (cases "installed env cfg ?s0")
    from installed_frame[OF probe]
    have t1: "trace s1 = trace s @ [Exec HelpProbe (help_cmd cfg)]" by simp
    obtain q s2 where inst: "run_command env InstallCmd install_cmd s1 = (q, s2)"
      by (cases "run_command env InstallCmd install_cmd s1")
    from run_command_frame[OF inst] t1
    have t2: "trace s2 = trace s @ [Exec HelpProbe (help_cmd cfg), Exec InstallCmd install_cmd]"
      by simp
    from Cons.prems False probe inst
    consider "s' = s1" | "s' = s2" | "install_loop env cfg rest s2 = (r, s')"
      by (auto split: sum.splits bool.splits if_splits)
    then show ?thesis
    proof cases
      case 1
      with t1 show ?thesis by simp
    next
      case 2
      with t2 show ?thesis by simp
    next
      case 3
      from Cons.IH[OF 3] obtain evs where
        "trace s' = trace s2 @ evs" "list_all tool_event evs" by blast
      with t2 show ?thesis by simp
    qed
  qed
qed

lemma ledger_inv_quiet:
  assumes "trace s' = trace s @ evs"
    and "install_cmds_of evs = []"
    and "previous_install_commands s' = previous_install_commands s"
    and "ledger_inv s"
  shows "ledger_inv s'"
  using assms by (simp add: ledger_inv_def install_cmds_of_append)

lemma install_loop_ledger:
  "install_loop env cfg cmds s = (r, s') \<Longrightarrow> ledger_inv s \<Longrightarrow> ledger_inv s'"
proof (induction cmds arbitrary: s r s')
  case Nil
  then show ?case by simp
next
  case (Cons install_cmd rest)
  let ?s0 = "s\<lparr>previous_install_commands := previous_install_commands s @ [install_cmd]\<rparr>"
  show ?case
  proof (cases "install_cmd \<in> set (previous_install_commands s)")
    case True
    with Cons.prems Cons.IH show ?thesis by simp
  next
    case False
    obtain p s1 where probe: "installed env cfg ?s0 = (p, s1)"
      by (cases "installed env cfg ?s0")
    from installed_frame[OF probe]
    have t1: "trace s1 = trace s @ [Exec HelpProbe (help_cmd cfg)]"
      and l1: "previous_install_commands s1 = previous_install_commands s @ [install_cmd]"
      by simp_all
    have inv1: "ledger_inv s1"
      using Cons.prems(2) t1 l1 by (auto simp: ledger_inv_def install_cmds_of_append)
    obtain q s2 where inst: "run_command env InstallCmd install_cmd s1 = (q, s2)"
      by (cases "run_command env InstallCmd install_cmd s1")
    from run_command_frame[OF inst] t1 l1
    have t2: "trace s2 = trace s @ [Exec HelpProbe (help_cmd cfg), Exec InstallCmd install_cmd]"
      and l2: "previous_install_commands s2 = previous_install_commands s @ [install_cmd]"
      by simp_all
    have inv2: "ledger_inv s2"
      using Cons.prems(2) False t2 l2 by (auto simp: ledger_inv_def install_cmds_of_append)
    from Cons.prems(1) False probe inst
    consider "s' = s1" | "s' = s2" | "install_loop env cfg rest s2 = (r, s')"
      by (auto split: sum.splits bool.splits if_splits)
    then show ?thesis
    proof cases
      case 1
      with inv1 show ?thesis by simp
    next
      case 2
      with inv2 show ?thesis by simp
    next
      case 3
      from Cons.IH[OF 3 inv2] show ?thesis .
    qed
  qed
qed

lemma exec_linter_frame:
  assumes run: "exec_linter env install_mode autorun_mode ignore_paths config_dir entry s = (r, s')"
  shows "(\<exists>evs. trace s' = trace s @ evs \<and> list_all tool_event evs)
         \<and> (ledger_inv s \<longrightarrow> ledger_inv s')"
proof (cases entry)
  case None
  with run have "s' = s" by (simp add: exec_linter_def)
  then show ?thesis by simp
next
  case (Some cfg)
  obtain i s1 where inst:
    "(if (install_mode \<or> autorun_mode) \<and> install cfg \<noteq> []
      then install_linter env cfg s else (Inr (), s)) = (i, s1)"
    by (cases "if (install_mode \<or> autorun_mode) \<and> install cfg \<noteq> []
               then install_linter env cfg s else (Inr (), s)")
  have ev1: "\<exists>evs. trace s1 = trace s @ evs \<and> list_all tool_event evs"
    using inst install_loop_events[of env cfg "install cfg" s i s1]
    by (auto simp: install_linter_def split: if_splits)
  have inv1: "ledger_inv s \<longrightarrow> ledger_inv s1"
    using inst install_loop_ledger[of env cfg "install cfg" s i s1]
    by (auto simp: install_linter_def split: if_splits)
  from run Some inst
  consider "s' = s1"
    | r2 where "run_per_file_task env cfg ignore_paths config_dir None s1 = (r2, s')"
    | cmd q where "run_command env RunProject cmd s1 = (q, s')"
    by (auto simp: exec_linter_def split: sum.splits prod.splits if_splits)
  then have "\<exists>evs. trace s' = trace s1 @ evs \<and> list_all tool_event evs
                  \<and> install_cmds_of evs = []
                  \<and> previous_install_commands s' = previous_install_commands s1"
  proof cases
    case 1
    then show ?thesis by simp
  next
    case 2
    from run_per_file_task_frame[OF 2] obtain cmds where
      "trace s' = trace s1 @ map (Exec RunFile) cmds"
      "previous_install_commands s' = previous_install_commands s1" by blast
    then show ?thesis
      using list_all_run_file[of cmds] install_cmds_of_run_file[of cmds] by blast
  next
    case 3
    from run_command_frame[OF 3]
    have "trace s' = trace s1 @ [Exec RunProject cmd]
          \<and> list_all tool_event [Exec RunProject cmd]
          \<and> install_cmds_of [Exec RunProject cmd] = []
          \<and> previous_install_commands s' = previous_install_commands s1" by simp
    then show ?thesis by blast
  qed
  then obtain evs2 where step2: "trace s' = trace s1 @ evs2" "list_all tool_event evs2"
    "install_cmds_of evs2 = []" "previous_install_commands s' = previous_install_commands s1"
    by blast
  from ev1 obtain evs1 where step1: "trace s1 = trace s @ evs1" "list_all tool_event evs1"
    by blast
  have "trace s' = trace s @ (evs1 @ evs2) \<and> list_all tool_event (evs1 @ evs2)"
    using step1 step2 by simp
  moreover have "ledger_inv s \<longrightarrow> ledger_inv s'"
    using inv1 ledger_inv_quiet[OF step2(1,3,4)] by blast
  ultimately show ?thesis by blast
qed

lemma run_linter_frame:
  assumes "run_linter env install_mode autorun_mode ignore_paths config_dir entry s = (out, s')"
  shows "(\<exists>evs. trace s' = trace s @ evs \<and> list_all tool_event evs)
         \<and> (ledger_inv s \<longrightarrow> ledger_inv s')"
proof -
  obtain r where "exec_linter env install_mode autorun_mode ignore_paths config_dir entry s
                    = (r, s')"
    using assms by (auto simp: run_linter_def split: prod.splits sum.splits)
  from exec_linter_frame[OF this] show ?thesis .
qed

lemma run_linters_loop_ledger:
  "ledger_inv s \<Longrightarrow>
     ledger_inv (snd (run_linters_loop env reg install_mode autorun_mode ignore_paths config_dir
                        linters s messages))"
proof (induction linters arbitrary: s messages)
  case Nil
  then show ?case by simp
next
  case (Cons linter rest)
  let ?s0 = "s\<lparr>trace := trace s @ [StopCheck]\<rparr>"
  have inv0: "ledger_inv ?s0"
    using Cons.prems by (simp add: ledger_inv_def install_cmds_of_append)
  show ?case
  proof (cases "should_stop env (world s)")
    case True
    with inv0 show ?thesis by simp
  next
    case False
    obtain out s1 where one:
      "run_linter env install_mode autorun_mode ignore_paths config_dir (map_of reg linter) ?s0
         = (out, s1)"
      by (cases "run_linter env install_mode autorun_mode ignore_paths config_dir
                   (map_of reg linter) ?s0")
    from run_linter_frame[OF one] inv0 have "ledger_inv s1" by blast
    from Cons.IH[OF this] False one show ?thesis by simp
  qed
qed

lemma run_linters_ledger:
  assumes "ledger_inv s"
  shows "ledger_inv (snd (run_linters env reg s install_mode autorun_mode ignore_paths config_dir
                            enabled_linters disabled_linters trusted))"
proof -
  have c: "ledger_inv (cleanup env s)"
    using assms by (simp add: ledger_inv_def cleanup_def)
  obtain r s2 where hack:
    "run_command env PerfHack [''npm'', ''set'', ''progress=false''] (cleanup env s) = (r, s2)"
    by (cases "run_command env PerfHack [''npm'', ''set'', ''progress=false''] (cleanup env s)")
  from run_command_frame[OF hack] c have inv2: "ledger_inv s2"
    by (simp add: ledger_inv_def install_cmds_of_append)
  have s2: "performance_hacks env (cleanup env s) = s2"
    by (simp add: performance_hacks_def hack)
  show ?thesis
  proof (cases "linters_to_run env reg (world s2) autorun_mode ignore_paths enabled_linters
                  disabled_linters")
    case (Inl e)
    with inv2 s2 show ?thesis by (simp add: run_linters_def Let_def)
  next
    case (Inr selected)
    with run_linters_loop_ledger[OF inv2, of env reg install_mode autorun_mode ignore_paths
        config_dir "py_iter env selected" Messages] s2
    show ?thesis by (auto simp: run_linters_def Let_def split: prod.splits)
  qed
qed

section \<open>The install ledger\<close>

lemma count_list_distinct: "distinct xs \<Longrightarrow> count_list xs x \<le> 1"
  by (induction xs) auto

text \<open>
  C5. In one run of \<open>run_linters\<close>, started with an empty record and any ledger, no
  command-line is given to \<open>run_command\<close> by the install step of \<open>install_linter\<close> (line
  837) more than once, whichever tools list it: the first attempt puts it into
  \<open>previous_install_commands\<close> and every later attempt, by any tool, skips it; and a
  command-line that was installed is in \<open>previous_install_commands\<close> afterwards. The same
  words can reach \<open>run_command\<close> again from another call site, as a help probe or as a run:
  the ledger is read by the install step only.
\<close>

theorem install_command_at_most_once:
  assumes "trace s = []"
  shows "count_list
           (install_cmds_of (trace (snd (run_linters env reg s install_mode autorun_mode
              ignore_paths config_dir enabled_linters disabled_linters trusted))))
           install_cmd \<le> 1
         \<and> (install_cmd \<in> set (install_cmds_of (trace (snd (run_linters env reg s install_mode
                autorun_mode ignore_paths config_dir enabled_linters disabled_linters trusted))))
              \<longrightarrow> install_cmd \<in> set (previous_install_commands (snd (run_linters env reg s
                    install_mode autorun_mode ignore_paths config_dir enabled_linters
                    disabled_linters trusted))))"
proof -
  have "ledger_inv s" using assms by (simp add: ledger_inv_def)
  from run_linters_ledger[OF this, of env reg install_mode autorun_mode ignore_paths config_dir
      enabled_linters disabled_linters trusted]
  show ?thesis
    unfolding ledger_inv_def
    using count_list_distinct[of "install_cmds_of (trace (snd (run_linters env reg s install_mode
      autorun_mode ignore_paths config_dir enabled_linters disabled_linters trusted)))"
      install_cmd]
    by auto
qed

section \<open>The loop over the selected tools\<close>

lemma parse_linter_union:
  "parse_linter env ignore_paths linter entry out messages =
     messages \<union> parse_linter env ignore_paths linter entry out {}"
  by (simp add: parse_linter_def add_messages_def split: sum.splits)

lemma run_linters_loop_union:
  "run_linters_loop env reg install_mode autorun_mode ignore_paths config_dir linters s messages
     = (messages \<union> fst (run_linters_loop env reg install_mode autorun_mode ignore_paths
                            config_dir linters s {}),
        snd (run_linters_loop env reg install_mode autorun_mode ignore_paths config_dir
               linters s {}))"
proof (induction linters arbitrary: s messages)
  case Nil
  then show ?case by (simp add: get_messages_def)
next
  case (Cons linter rest)
  let ?s0 = "s\<lparr>trace := trace s @ [StopCheck]\<rparr>"
  obtain out s1 where one:
    "run_linter env install_mode autorun_mode ignore_paths config_dir (map_of reg linter) ?s0
       = (out, s1)"
    by (cases "run_linter env install_mode autorun_mode ignore_paths config_dir
                 (map_of reg linter) ?s0")
  let ?new = "parse_linter env ignore_paths linter (map_of reg linter) out {}"
  have step: "parse_linter env ignore_paths linter (map_of reg linter) out messages
                = messages \<union> ?new"
    by (rule parse_linter_union)
  show ?case
  proof (cases "should_stop env (world s)")
    case True
    then show ?thesis by (simp add: get_messages_def)
  next
    case False
    from Cons.IH[of s1 "messages \<union> ?new"] Cons.IH[of s1 ?new] False one step
    show ?thesis by (simp add: Un_assoc)
  qed
qed

text \<open>
  When the selector returns, \<open>run_linters\<close> returns what the loop over the selected tools
  returns, started after \<open>cleanup\<close> and \<open>performance_hacks\<close> with no diagnostics.
\<close>

lemma run_linters_is_loop:
  assumes "linters_to_run env reg (world (performance_hacks env (cleanup env s))) autorun_mode
             ignore_paths enabled_linters disabled_linters = Inr selected"
  shows "run_linters env reg s install_mode autorun_mode ignore_paths config_dir enabled_linters
           disabled_linters trusted
         = (Inr (fst (run_linters_loop env reg install_mode autorun_mode ignore_paths config_dir
                        (py_iter env selected) (performance_hacks env (cleanup env s)) {})),
            snd (run_linters_loop env reg install_mode autorun_mode ignore_paths config_dir
                   (py_iter env selected) (performance_hacks env (cleanup env s)) {}))"
  using assms by (simp add: run_linters_def Let_def Messages_def split: prod.splits)

text \<open>
  C9. At the head of each iteration the stop signal is read once. If it is set,
  \<open>run_linters\<close> ends there: the loop returns the diagnostics gathered so far, as a
  result and not as an exception, and the state is the one before the tool but for the
  record of the reading: no command is run, nothing is installed, nothing is parsed, for
  this tool or a later one. If it is not set, the work on the tool follows, and it adds
  only events of that tool to the record, no further reading of the signal.
\<close>

theorem stop_signal_at_tool_boundary:
  "(should_stop env (world s) \<longrightarrow>
      run_linters_loop env reg install_mode autorun_mode ignore_paths config_dir
        (linter # rest) s messages = (messages, s\<lparr>trace := trace s @ [StopCheck]\<rparr>))
   \<and> (\<not> should_stop env (world s) \<longrightarrow>
        (\<exists>out s1 evs.
           run_linter env install_mode autorun_mode ignore_paths config_dir (map_of reg linter)
             (s\<lparr>trace := trace s @ [StopCheck]\<rparr>) = (out, s1)
           \<and> trace s1 = trace s @ StopCheck # evs
           \<and> list_all tool_event evs
           \<and> run_linters_loop env reg install_mode autorun_mode ignore_paths config_dir
               (linter # rest) s messages
             = run_linters_loop env reg install_mode autorun_mode ignore_paths config_dir rest s1
                 (parse_linter env ignore_paths linter (map_of reg linter) out messages)))"
proof -
  let ?s0 = "s\<lparr>trace := trace s @ [StopCheck]\<rparr>"
  obtain out s1 where one:
    "run_linter env install_mode autorun_mode ignore_paths config_dir (map_of reg linter) ?s0
       = (out, s1)"
    by (cases "run_linter env install_mode autorun_mode ignore_paths config_dir
                 (map_of reg linter) ?s0")
  from run_linter_frame[OF one] obtain evs where
    evs: "trace s1 = trace ?s0 @ evs" "list_all tool_event evs" by blast
  then have "trace s1 = trace s @ StopCheck # evs" by simp
  with one evs(2) show ?thesis by (auto simp: get_messages_def)
qed

lemma run_linters_loop_mono:
  "messages \<subseteq> fst (run_linters_loop env reg install_mode autorun_mode ignore_paths config_dir
                      linters s messages)"
  using run_linters_loop_union[of env reg install_mode autorun_mode ignore_paths config_dir
      linters s messages]
  by simp

lemma run_linters_loop_failed:
  assumes "\<not> should_stop env (world s)"
    and "exec_linter env install_mode autorun_mode ignore_paths config_dir (map_of reg linter)
           (s\<lparr>trace := trace s @ [StopCheck]\<rparr>) = (Inl e, s1)"
  shows "run_linters_loop env reg install_mode autorun_mode ignore_paths config_dir
           (linter # rest) s messages
         = run_linters_loop env reg install_mode autorun_mode ignore_paths config_dir rest s1
             messages"
proof -
  have one: "run_linter env install_mode autorun_mode ignore_paths config_dir
               (map_of reg linter) (s\<lparr>trace := trace s @ [StopCheck]\<rparr>) = (Text [], s1)"
    using assms(2) by (simp add: run_linter_def)
  have no_new: "parse_linter env ignore_paths linter (map_of reg linter) (Text []) messages
                   = messages"
    by (simp add: parse_linter_def)
  have "run_linters_loop env reg install_mode autorun_mode ignore_paths config_dir
          (linter # rest) s messages
        = run_linters_loop env reg install_mode autorun_mode ignore_paths config_dir rest s1
            (parse_linter env ignore_paths linter (map_of reg linter) (Text []) messages)"
    using assms(1) by (simp add: one)
  then show ?thesis by (simp only: no_new)
qed

lemma run_linters_loop_reported:
  assumes "\<not> should_stop env (world s)"
    and "exec_linter env install_mode autorun_mode ignore_paths config_dir (map_of reg linter)
           (s\<lparr>trace := trace s @ [StopCheck]\<rparr>) = (Inr out, s1)"
    and "truthy out"
    and "linter_messages env ignore_paths linter (map_of reg linter) out = Inr new"
  shows "run_linters_loop env reg install_mode autorun_mode ignore_paths config_dir
           (linter # rest) s messages
         = run_linters_loop env reg install_mode autorun_mode ignore_paths config_dir rest s1
             (messages \<union> new)"
proof -
  have one: "run_linter env install_mode autorun_mode ignore_paths config_dir
               (map_of reg linter) (s\<lparr>trace := trace s @ [StopCheck]\<rparr>) = (out, s1)"
    using assms(2) by (simp add: run_linter_def)
  have merged: "parse_linter env ignore_paths linter (map_of reg linter) out messages
                  = messages \<union> new"
    using assms(3,4) by (simp add: parse_linter_def add_messages_def)
  have "run_linters_loop env reg install_mode autorun_mode ignore_paths config_dir
          (linter # rest) s messages
        = run_linters_loop env reg install_mode autorun_mode ignore_paths config_dir rest s1
            (parse_linter env ignore_paths linter (map_of reg linter) out messages)"
    using assms(1) by (simp add: one)
  then show ?thesis by (simp only: merged)
qed

text \<open>
  When the stop signal is not set at any of the first \<open>n\<close> tool boundaries, the loop over
  the whole list is the loop over the first \<open>n\<close> tools followed by the loop over the rest.
\<close>

lemma run_linters_loop_split:
  assumes "\<And>k. k < n \<Longrightarrow>
             \<not> should_stop env (world (snd (run_linters_loop env reg install_mode autorun_mode
                                               ignore_paths config_dir (take k linters) s
                                               messages)))"
  shows "run_linters_loop env reg install_mode autorun_mode ignore_paths config_dir linters s
           messages
         = run_linters_loop env reg install_mode autorun_mode ignore_paths config_dir
             (drop n linters)
             (snd (run_linters_loop env reg install_mode autorun_mode ignore_paths config_dir
                     (take n linters) s messages))
             (fst (run_linters_loop env reg install_mode autorun_mode ignore_paths config_dir
                     (take n linters) s messages))"
  using assms
proof (induction n arbitrary: linters s messages)
  case 0
  then show ?case by (simp add: get_messages_def)
next
  case (Suc n)
  show ?case
  proof (cases linters)
    case Nil
    then show ?thesis by (simp add: get_messages_def)
  next
    case (Cons linter rest)
    let ?s0 = "s\<lparr>trace := trace s @ [StopCheck]\<rparr>"
    obtain out s1 where one:
      "run_linter env install_mode autorun_mode ignore_paths config_dir (map_of reg linter) ?s0
         = (out, s1)"
      by (cases "run_linter env install_mode autorun_mode ignore_paths config_dir
                   (map_of reg linter) ?s0")
    define m1 where "m1 = parse_linter env ignore_paths linter (map_of reg linter) out messages"
    from Suc.prems[of 0] have running: "\<not> should_stop env (world s)"
      by (simp add: get_messages_def)
    have step: "\<And>ls. run_linters_loop env reg install_mode autorun_mode ignore_paths config_dir
                  (linter # ls) s messages
                = run_linters_loop env reg install_mode autorun_mode ignore_paths config_dir
                    ls s1 m1"
      using running one by (simp add: m1_def)
    have later: "\<not> should_stop env (world (snd (run_linters_loop env reg install_mode
                    autorun_mode ignore_paths config_dir (take k rest) s1 m1)))"
      if "k < n" for k
    proof -
      from that have "Suc k < Suc n" by simp
      from Suc.prems[OF this] show ?thesis
        unfolding Cons take_Suc_Cons step .
    qed
    show ?thesis
      unfolding Cons take_Suc_Cons drop_Suc_Cons step
      by (rule Suc.IH[OF later])
  qed
qed

text \<open>
  C2. Take a run of the loop over the selected tools and two of its tools, at the places
  \<open>j\<close> and \<open>i\<close> of the iteration, the stop signal not being set at any tool boundary up
  to theirs. Let the install or the execution of the tool at \<open>j\<close> raise an exception when
  its turn comes, and let the tool at \<open>i\<close> run and have its output parsed without an
  exception, which gives the diagnostics \<open>new\<close>. Then the exception does not leave the
  loop: the run goes on with the tools after \<open>j\<close>, from the state the failed attempt left
  behind and with the diagnostics as they were, so the failed tool adds nothing; the loop
  returns a set of diagnostics; and that set holds the diagnostics of the tool at \<open>i\<close>,
  whether it comes before or after the failed one, together with everything gathered
  before either of them. The result of \<open>run_linters\<close> is the result of this loop (lemma
  \<open>run_linters_is_loop\<close>). (What is printed is not part of the model.)
\<close>

theorem fault_isolation:
  assumes "j < length linters" and "i < length linters"
    and "\<forall>k \<le> max i j.
           \<not> should_stop env (world (snd (run_linters_loop env reg install_mode autorun_mode
                                             ignore_paths config_dir (take k linters) s
                                             messages)))"
    and "run_linters_loop env reg install_mode autorun_mode ignore_paths config_dir
           (take j linters) s messages = (gathered_j, s_j)"
    and "exec_linter env install_mode autorun_mode ignore_paths config_dir
           (map_of reg (linters ! j)) (s_j\<lparr>trace := trace s_j @ [StopCheck]\<rparr>) = (Inl e, s_j')"
    and "run_linters_loop env reg install_mode autorun_mode ignore_paths config_dir
           (take i linters) s messages = (gathered_i, s_i)"
    and "exec_linter env install_mode autorun_mode ignore_paths config_dir
           (map_of reg (linters ! i)) (s_i\<lparr>trace := trace s_i @ [StopCheck]\<rparr>)
         = (Inr out, s_i')"
    and "truthy out"
    and "linter_messages env ignore_paths (linters ! i) (map_of reg (linters ! i)) out = Inr new"
  shows "run_linters_loop env reg install_mode autorun_mode ignore_paths config_dir linters s
           messages
         = run_linters_loop env reg install_mode autorun_mode ignore_paths config_dir
             (drop (Suc j) linters) s_j' gathered_j
         \<and> run_linters_loop env reg install_mode autorun_mode ignore_paths config_dir
             (take (Suc j) linters) s messages = (gathered_j, s_j')
         \<and> run_linters_loop env reg install_mode autorun_mode ignore_paths config_dir
             (take (Suc i) linters) s messages = (gathered_i \<union> new, s_i')
         \<and> messages \<union> gathered_j \<union> gathered_i \<union> new
             \<subseteq> fst (run_linters_loop env reg install_mode autorun_mode ignore_paths config_dir
                      linters s messages)"
proof -
  let ?loop = "run_linters_loop env reg install_mode autorun_mode ignore_paths config_dir"
  have upto: "\<not> should_stop env (world (snd (?loop (take k linters) s messages)))"
    if "k \<le> max i j" for k
    using assms(3) that by blast
  have upto_take: "\<not> should_stop env (world (snd (?loop (take k (take n linters)) s messages)))"
    if "k < n" "n \<le> Suc (max i j)" for k n
  proof -
    from that have "take k (take n linters) = take k linters" by (simp add: min_def)
    with upto[of k] that show ?thesis by simp
  qed
  have running_j: "\<not> should_stop env (world s_j)"
    using upto[of j] assms(4) by simp
  have running_i: "\<not> should_stop env (world s_i)"
    using upto[of i] assms(6) by simp
  have at_j: "drop j linters = linters ! j # drop (Suc j) linters"
    using assms(1) by (simp add: Cons_nth_drop_Suc)
  have at_i: "drop i linters = linters ! i # drop (Suc i) linters"
    using assms(2) by (simp add: Cons_nth_drop_Suc)
  have take_j: "drop j (take (Suc j) linters) = [linters ! j]"
    using assms(1) by (simp add: take_Suc_conv_app_nth)
  have take_i: "drop i (take (Suc i) linters) = [linters ! i]"
    using assms(2) by (simp add: take_Suc_conv_app_nth)
  have whole_j: "?loop linters s messages = ?loop (drop (Suc j) linters) s_j' gathered_j"
  proof -
    have "?loop linters s messages = ?loop (drop j linters) s_j gathered_j"
      using run_linters_loop_split[of j env reg install_mode autorun_mode ignore_paths
          config_dir linters s messages] upto assms(4)
      by simp
    also have "\<dots> = ?loop (drop (Suc j) linters) s_j' gathered_j"
      unfolding at_j by (rule run_linters_loop_failed[OF running_j assms(5)])
    finally show ?thesis .
  qed
  have part_j: "?loop (take (Suc j) linters) s messages = (gathered_j, s_j')"
  proof -
    have "?loop (take (Suc j) linters) s messages
            = ?loop (drop j (take (Suc j) linters)) s_j gathered_j"
      using run_linters_loop_split[of j env reg install_mode autorun_mode ignore_paths
          config_dir "take (Suc j) linters" s messages] upto_take[of _ "Suc j"] assms(4)
      by (simp add: min_def)
    also have "\<dots> = ?loop [] s_j' gathered_j"
      unfolding take_j by (rule run_linters_loop_failed[OF running_j assms(5)])
    finally show ?thesis by (simp add: get_messages_def)
  qed
  have whole_i: "?loop linters s messages = ?loop (drop (Suc i) linters) s_i' (gathered_i \<union> new)"
  proof -
    have "?loop linters s messages = ?loop (drop i linters) s_i gathered_i"
      using run_linters_loop_split[of i env reg install_mode autorun_mode ignore_paths
          config_dir linters s messages] upto assms(6)
      by simp
    also have "\<dots> = ?loop (drop (Suc i) linters) s_i' (gathered_i \<union> new)"
      unfolding at_i by (rule run_linters_loop_reported[OF running_i assms(7,8,9)])
    finally show ?thesis .
  qed
  have part_i: "?loop (take (Suc i) linters) s messages = (gathered_i \<union> new, s_i')"
  proof -
    have "?loop (take (Suc i) linters) s messages
            = ?loop (drop i (take (Suc i) linters)) s_i gathered_i"
      using run_linters_loop_split[of i env reg install_mode autorun_mode ignore_paths
          config_dir "take (Suc i) linters" s messages] upto_take[of _ "Suc i"] assms(6)
      by (simp add: min_def)
    also have "\<dots> = ?loop [] s_i' (gathered_i \<union> new)"
      unfolding take_i by (rule run_linters_loop_reported[OF running_i assms(7,8,9)])
    finally show ?thesis by (simp add: get_messages_def)
  qed
  have "messages \<subseteq> fst (?loop linters s messages)"
    by (rule run_linters_loop_mono)
  moreover have "gathered_j \<subseteq> fst (?loop linters s messages)"
    unfolding whole_j by (rule run_linters_loop_mono)
  moreover have "gathered_i \<union> new \<subseteq> fst (?loop linters s messages)"
    unfolding whole_i by (rule run_linters_loop_mono)
  ultimately have "messages \<union> gathered_j \<union> gathered_i \<union> new \<subseteq> fst (?loop linters s messages)"
    by blast
  with whole_j part_j part_i show ?thesis by blast
qed

section \<open>Merging the diagnostics of a tool\<close>

lemma should_ignore_path_rules:
  "should_ignore_path env path rules =
     (if rules \<noteq> [] \<and> path = [] then Inl ValueError
      else Inr (\<exists>rule \<in> set rules.
                  prefix rule (relpath env path) \<or> prefix rule path \<or> fnmatch env path rule
                  \<or> rule \<in> set (split_on CHR ''/'' path)))"
  by (induction rules) (auto simp: os_path_relpath_def)

lemma prefixed_messages_rules:
  "prefixed_messages env linter (Some rules) parsed =
     (if rules \<noteq> [] \<and> (\<exists>d \<in> set parsed. fst d = []) then Inl ValueError
      else Inr (map (\<lambda>d. (fst d, fst (snd d), linter @ '': '' @ snd (snd d)))
                  (filter (\<lambda>d. \<not> (\<exists>rule \<in> set rules.
                                      prefix rule (relpath env (fst d)) \<or> prefix rule (fst d)
                                      \<or> fnmatch env (fst d) rule
                                      \<or> rule \<in> set (split_on CHR ''/'' (fst d))))
                     parsed)))"
proof (cases "rules = []")
  case True
  have "prefixed_messages env linter (Some []) parsed
          = Inr (map (\<lambda>d. (fst d, fst (snd d), linter @ '': '' @ snd (snd d))) parsed)"
    by (induction parsed) (auto simp: should_ignore_path_opt_def)
  with True show ?thesis by simp
next
  case False
  show ?thesis
  proof (induction parsed)
    case Nil
    then show ?case by simp
  next
    case (Cons d rest)
    obtain path pos content where d: "d = (path, pos, content)"
      by (cases d)
    show ?case
      unfolding d using False
      by (simp add: Cons.IH should_ignore_path_opt_def should_ignore_path_rules)
  qed
qed

lemma kept_set:
  "set (map (\<lambda>d. (fst d, fst (snd d), linter @ '': '' @ snd (snd d)))
          (filter (\<lambda>d. \<not> matches (fst d)) parsed))
   = {(path, pos, linter @ '': '' @ content) | path pos content.
        (path, pos, content) \<in> set parsed \<and> \<not> matches path}"
  by force

text \<open>
  C8. Let the output of a tool be not empty and let its parser return diagnostics. A rule
  matches a path when it is a prefix of the relative path, a prefix of the path, a glob
  that matches the path, or one of the segments of the path. \<open>os.path.relpath\<close> raises
  \<open>ValueError\<close> for an empty path; so when there is a rule and one of the diagnostics has
  an empty path, the comprehension raises, the \<open>except\<close> around the parsing takes the
  exception, and nothing of this tool is merged. In every other case what \<open>run_linters\<close>
  merges into the set is: each diagnostic whose path matches no ignore rule, with the name
  of the tool and a colon and a space put before its text. The merge is the union of sets
  of triples, so a triple that comes twice is in the set once, and merging the same output
  again changes nothing.
\<close>

theorem merge_prefixes_filters_and_unions:
  assumes "truthy out"
    and "parse env (parser cfg) out = Inr parsed"
  shows "(rules = [] \<or> (\<forall>d \<in> set parsed. fst d \<noteq> []) \<longrightarrow>
            parse_linter env (Some rules) linter (Some cfg) out messages
            = messages \<union>
                {(path, pos, linter @ '': '' @ content) | path pos content.
                   (path, pos, content) \<in> set parsed
                   \<and> \<not> (\<exists>rule \<in> set rules.
                           prefix rule (relpath env path) \<or> prefix rule path
                           \<or> fnmatch env path rule
                           \<or> rule \<in> set (split_on CHR ''/'' path))})
         \<and> (rules \<noteq> [] \<and> (\<exists>d \<in> set parsed. fst d = []) \<longrightarrow>
              parse_linter env (Some rules) linter (Some cfg) out messages = messages)
         \<and> parse_linter env (Some rules) linter (Some cfg) out
             (parse_linter env (Some rules) linter (Some cfg) out messages)
           = parse_linter env (Some rules) linter (Some cfg) out messages"
proof -
  define matches where
    "matches = (\<lambda>path. \<exists>rule \<in> set rules.
                  prefix rule (relpath env path) \<or> prefix rule path \<or> fnmatch env path rule
                  \<or> rule \<in> set (split_on CHR ''/'' path))"
  define kept where
    "kept = {(path, pos, linter @ '': '' @ content) | path pos content.
               (path, pos, content) \<in> set parsed \<and> \<not> matches path}"
  define raises where
    "raises = (rules \<noteq> [] \<and> (\<exists>d \<in> set parsed. fst d = []))"
  have comprehension: "prefixed_messages env linter (Some rules) parsed =
      (if raises then Inl ValueError
       else Inr (map (\<lambda>d. (fst d, fst (snd d), linter @ '': '' @ snd (snd d)))
                   (filter (\<lambda>d. \<not> matches (fst d)) parsed)))"
    unfolding raises_def matches_def by (rule prefixed_messages_rules)
  have merged: "parse_linter env (Some rules) linter (Some cfg) out m
                  = (if raises then m else m \<union> kept)" for m
  proof (cases raises)
    case True
    then show ?thesis
      unfolding parse_linter_def linter_messages_def
      by (simp only: assms comprehension if_True option.case sum.case)
  next
    case False
    then show ?thesis
      unfolding parse_linter_def linter_messages_def add_messages_def kept_def
      by (simp only: assms comprehension if_True if_False option.case sum.case kept_set)
  qed
  have not_raises:
    "(rules = [] \<or> (\<forall>d \<in> set parsed. fst d \<noteq> [])) = (\<not> raises)"
    unfolding raises_def by auto
  have "(\<not> raises \<longrightarrow>
           parse_linter env (Some rules) linter (Some cfg) out messages = messages \<union> kept)
        \<and> (raises \<longrightarrow> parse_linter env (Some rules) linter (Some cfg) out messages = messages)
        \<and> parse_linter env (Some rules) linter (Some cfg) out
            (parse_linter env (Some rules) linter (Some cfg) out messages)
          = parse_linter env (Some rules) linter (Some cfg) out messages"
    by (simp add: merged Un_assoc)
  then show ?thesis
    unfolding not_raises[symmetric] unfolding raises_def kept_def matches_def .
qed

section \<open>Runs of the examples\<close>

theorem install_command_at_most_once_witness:
  "trace (LinterRunner (0::nat)) = []
   \<and> map (install \<circ> snd) shared_install_registry
       = [[[''npm'', ''install'', ''shared-plugin'']], [[''npm'', ''install'', ''shared-plugin'']]]
   \<and> trace (snd (run_linters (lint_project not_installed (\<lambda>w. False)) shared_install_registry
         (LinterRunner 0) True False (Some []) None (Some [''first'', ''second'']) None False))
       = [Exec PerfHack [''npm'', ''set'', ''progress=false''], StopCheck,
          Exec HelpProbe [''first'', ''--help''],
          Exec InstallCmd [''npm'', ''install'', ''shared-plugin''],
          Exec RunProject [''first'', ''.''], StopCheck,
          Exec RunProject [''second'', ''.'']]
   \<and> count_list
         (install_cmds_of (trace (snd (run_linters (lint_project not_installed (\<lambda>w. False))
            shared_install_registry (LinterRunner 0) True False (Some []) None
            (Some [''first'', ''second'']) None False))))
         [''npm'', ''install'', ''shared-plugin''] \<le> 1
   \<and> [''npm'', ''install'', ''shared-plugin'']
       \<in> set (previous_install_commands (snd (run_linters
             (lint_project not_installed (\<lambda>w. False)) shared_install_registry (LinterRunner 0)
             True False (Some []) None (Some [''first'', ''second'']) None False)))"
proof -
  have start: "trace (LinterRunner (0::nat)) = []"
    by (simp add: LinterRunner_def)
  have lists: "map (install \<circ> snd) shared_install_registry
       = [[[''npm'', ''install'', ''shared-plugin'']], [[''npm'', ''install'', ''shared-plugin'']]]"
    by code_simp
  have ran: "trace (snd (run_linters (lint_project not_installed (\<lambda>w. False))
         shared_install_registry (LinterRunner 0) True False (Some []) None
         (Some [''first'', ''second'']) None False))
       = [Exec PerfHack [''npm'', ''set'', ''progress=false''], StopCheck,
          Exec HelpProbe [''first'', ''--help''],
          Exec InstallCmd [''npm'', ''install'', ''shared-plugin''],
          Exec RunProject [''first'', ''.''], StopCheck,
          Exec RunProject [''second'', ''.'']]"
    by code_simp
  have installed_one: "[''npm'', ''install'', ''shared-plugin'']
       \<in> set (install_cmds_of (trace (snd (run_linters
             (lint_project not_installed (\<lambda>w. False)) shared_install_registry (LinterRunner 0)
             True False (Some []) None (Some [''first'', ''second'']) None False))))"
    unfolding ran by simp
  from install_command_at_most_once [OF start,
      of "lint_project not_installed (\<lambda>w. False)" shared_install_registry True False
        "Some []" None "Some [''first'', ''second'']" None False
        "[''npm'', ''install'', ''shared-plugin'']"]
    installed_one
  have "count_list
         (install_cmds_of (trace (snd (run_linters (lint_project not_installed (\<lambda>w. False))
            shared_install_registry (LinterRunner 0) True False (Some []) None
            (Some [''first'', ''second'']) None False))))
         [''npm'', ''install'', ''shared-plugin''] \<le> 1
   \<and> [''npm'', ''install'', ''shared-plugin'']
       \<in> set (previous_install_commands (snd (run_linters
             (lint_project not_installed (\<lambda>w. False)) shared_install_registry (LinterRunner 0)
             True False (Some []) None (Some [''first'', ''second'']) None False)))"
    by blast
  with start lists ran show ?thesis by blast
qed

text \<open>
  The install ledger does not keep a command-line from reaching \<open>run_command\<close> twice. The
  two tools of \<open>gometalinter_registry\<close> both list \<open>gometalinter --install --update\<close> as an
  install, and it is also the help command-line of \<open>gometalinter\<close>. When no program is
  there, it reaches \<open>run_command\<close> three times in the run: twice as the help probe before
  the two installs of \<open>gometalinter\<close>, once as the install. With \<open>LINTERS\<close> itself and
  \<open>gometalinter\<close> alone it is the same.
\<close>

theorem shared_install_argv_dispatched_thrice:
  "trace (snd (run_linters (lint_project nothing_there (\<lambda>w. False)) gometalinter_registry
         (LinterRunner 0) True False (Some []) None
         (Some [''gometalinter'', ''gometalinter-extra'']) None False))
     = [Exec PerfHack [''npm'', ''set'', ''progress=false''], StopCheck,
        Exec HelpProbe [''gometalinter'', ''--install'', ''--update''],
        Exec InstallCmd [''go'', ''get'', ''-u'', ''github.com/alecthomas/gometalinter''],
        Exec HelpProbe [''gometalinter'', ''--install'', ''--update''],
        Exec InstallCmd [''gometalinter'', ''--install'', ''--update''],
        Exec RunProject
          [''gometalinter'', ''--enable-gc'', ''--deadline=300s'', ''--aggregate'',
           ''--vendor'', ''--disable=lll'', ''--json'', ''-s'', ''node_modules'', ''-s'',
           ''src'', ''--config=/opt/inlineplz/config/.gometalinter.json'', ''./...''],
        StopCheck,
        Exec RunProject [''gometalinter-extra'', ''./...'']]
   \<and> count_list
         (commands_of (trace (snd (run_linters (lint_project nothing_there (\<lambda>w. False))
            gometalinter_registry (LinterRunner 0) True False (Some []) None
            (Some [''gometalinter'', ''gometalinter-extra'']) None False))))
         [''gometalinter'', ''--install'', ''--update''] = 3
   \<and> linters_to_run (lint_project nothing_there (\<lambda>w. False)) gometalinter_registry 1 False
         (Some []) (Some [''gometalinter'', ''gometalinter-extra'']) None
       = Inr [''gometalinter'', ''gometalinter-extra'']
   \<and> list_all (\<lambda>entry. [''gometalinter'', ''--install'', ''--update''] \<in> set (install (snd entry)))
         gometalinter_registry
   \<and> map_of (LINTERS ''/usr/bin/python3'' (\<lambda>p. p) ''/proj'') ''gometalinter''
       = map_of gometalinter_registry ''gometalinter''
   \<and> count_list
         (commands_of (trace (snd (run_linters (lint_project nothing_there (\<lambda>w. False))
            (LINTERS ''/usr/bin/python3'' (\<lambda>p. p) ''/proj'') (LinterRunner 0) True False
            (Some []) None (Some [''gometalinter'']) None False))))
         [''gometalinter'', ''--install'', ''--update''] = 3"
  by code_simp

theorem stop_signal_at_tool_boundary_witness:
  "run_linters (lint_project all_succeed (\<lambda>w. 2 \<le> w))
       (LINTERS ''/usr/bin/python3'' (\<lambda>p. p) ''/proj'') (LinterRunner 0) False False (Some [])
       None (Some [''bandit'', ''eslint'']) None False
     = (Inr {(''app.py'', 3, ''bandit: B101 assert used'')},
        \<lparr>previous_install_commands = [], world = 2,
           trace =
             [Exec PerfHack [''npm'', ''set'', ''progress=false''], StopCheck,
              Exec RunProject
                [''bandit'', ''-f'', ''json'', ''-iii'', ''-ll'', ''-r'', ''.'', ''-c'',
                 ''/opt/inlineplz/config/bandit.yaml''],
              StopCheck]\<rparr>)
   \<and> should_stop (lint_project all_succeed (\<lambda>w. 2 \<le> w)) (world (LinterRunner 2))
   \<and> run_linters_loop (lint_project all_succeed (\<lambda>w. 2 \<le> w))
         (LINTERS ''/usr/bin/python3'' (\<lambda>p. p) ''/proj'') False False (Some []) None
         (''eslint'' # []) (LinterRunner 2) {(''app.py'', 3, ''bandit: B101 assert used'')}
       = ({(''app.py'', 3, ''bandit: B101 assert used'')},
          (LinterRunner 2)\<lparr>trace := trace (LinterRunner (2::nat)) @ [StopCheck]\<rparr>)
   \<and> \<not> should_stop (lint_project all_succeed (\<lambda>w. 2 \<le> w)) (world (LinterRunner 1))
   \<and> (\<exists>out s1 evs.
         run_linter (lint_project all_succeed (\<lambda>w. 2 \<le> w)) False False (Some []) None
           (map_of (LINTERS ''/usr/bin/python3'' (\<lambda>p. p) ''/proj'') ''bandit'')
           ((LinterRunner 1)\<lparr>trace := trace (LinterRunner (1::nat)) @ [StopCheck]\<rparr>) = (out, s1)
         \<and> trace s1 = trace (LinterRunner (1::nat)) @ StopCheck # evs
         \<and> list_all tool_event evs
         \<and> run_linters_loop (lint_project all_succeed (\<lambda>w. 2 \<le> w))
               (LINTERS ''/usr/bin/python3'' (\<lambda>p. p) ''/proj'') False False (Some []) None
               (''bandit'' # [''eslint'']) (LinterRunner 1) {}
             = run_linters_loop (lint_project all_succeed (\<lambda>w. 2 \<le> w))
                 (LINTERS ''/usr/bin/python3'' (\<lambda>p. p) ''/proj'') False False (Some []) None
                 [''eslint''] s1
                 (parse_linter (lint_project all_succeed (\<lambda>w. 2 \<le> w)) (Some []) ''bandit''
                    (map_of (LINTERS ''/usr/bin/python3'' (\<lambda>p. p) ''/proj'') ''bandit'') out {}))"
proof -
  have whole: "run_linters (lint_project all_succeed (\<lambda>w. 2 \<le> w))
       (LINTERS ''/usr/bin/python3'' (\<lambda>p. p) ''/proj'') (LinterRunner 0) False False (Some [])
       None (Some [''bandit'', ''eslint'']) None False
     = (Inr {(''app.py'', 3, ''bandit: B101 assert used'')},
        \<lparr>previous_install_commands = [], world = 2,
           trace =
             [Exec PerfHack [''npm'', ''set'', ''progress=false''], StopCheck,
              Exec RunProject
                [''bandit'', ''-f'', ''json'', ''-iii'', ''-ll'', ''-r'', ''.'', ''-c'',
                 ''/opt/inlineplz/config/bandit.yaml''],
              StopCheck]\<rparr>)"
    by code_simp
  have set_now: "should_stop (lint_project all_succeed (\<lambda>w. 2 \<le> w)) (world (LinterRunner 2))"
    by code_simp
  have not_yet:
    "\<not> should_stop (lint_project all_succeed (\<lambda>w. 2 \<le> w)) (world (LinterRunner 1))"
    by code_simp
  note stopped = stop_signal_at_tool_boundary [of "lint_project all_succeed (\<lambda>w. 2 \<le> w)"
      "LinterRunner 2" "LINTERS ''/usr/bin/python3'' (\<lambda>p. p) ''/proj''" False False "Some []"
      None "''eslint''" "[]" "{(''app.py'', 3, ''bandit: B101 assert used'')}",
      THEN conjunct1, THEN mp, OF set_now]
  note went_on = stop_signal_at_tool_boundary [of "lint_project all_succeed (\<lambda>w. 2 \<le> w)"
      "LinterRunner 1" "LINTERS ''/usr/bin/python3'' (\<lambda>p. p) ''/proj''" False False
      "Some []" None "''bandit''" "[''eslint'']" "{}",
      THEN conjunct2, THEN mp, OF not_yet]
  show ?thesis
    by (intro conjI) (rule whole, rule set_now, rule stopped, rule not_yet, rule went_on)
qed

text \<open>
  \<open>bandit\<close> cannot be spawned and \<open>eslint\<close> runs after it: the run ends with the
  diagnostics of \<open>eslint\<close>.
\<close>

theorem fault_isolation_witness:
  "exec_linter (lint_project bandit_missing (\<lambda>w. False)) False False
       (Some [''node_modules'']) None
       (map_of (LINTERS ''/usr/bin/python3'' (\<lambda>p. p) ''/proj'') ([''bandit'', ''eslint''] ! 0))
       (\<lparr>previous_install_commands = [], world = (1::nat),
           trace = [Exec PerfHack [''npm'', ''set'', ''progress=false'']]\<rparr>
         \<lparr>trace := trace \<lparr>previous_install_commands = [], world = (1::nat),
                              trace = [Exec PerfHack [''npm'', ''set'', ''progress=false'']]\<rparr>
                     @ [StopCheck]\<rparr>)
     = (Inl OSError,
        \<lparr>previous_install_commands = [], world = 2,
           trace =
             [Exec PerfHack [''npm'', ''set'', ''progress=false''], StopCheck,
              Exec RunProject
                [''bandit'', ''-f'', ''json'', ''-iii'', ''-ll'', ''-r'', ''.'', ''-c'',
                 ''/opt/inlineplz/config/bandit.yaml'']]\<rparr>)
   \<and> linter_messages (lint_project bandit_missing (\<lambda>w. False)) (Some [''node_modules''])
         ([''bandit'', ''eslint''] ! Suc 0)
         (map_of (LINTERS ''/usr/bin/python3'' (\<lambda>p. p) ''/proj'')
            ([''bandit'', ''eslint''] ! Suc 0))
         (Text ''report'')
       = Inr {(''app.js'', 1, ''eslint: Missing semicolon'')}
   \<and> run_linters_loop (lint_project bandit_missing (\<lambda>w. False))
         (LINTERS ''/usr/bin/python3'' (\<lambda>p. p) ''/proj'') False False
         (Some [''node_modules'']) None (take (Suc 0) [''bandit'', ''eslint''])
         \<lparr>previous_install_commands = [], world = (1::nat),
            trace = [Exec PerfHack [''npm'', ''set'', ''progress=false'']]\<rparr> {}
       = ({},
          \<lparr>previous_install_commands = [], world = 2,
             trace =
               [Exec PerfHack [''npm'', ''set'', ''progress=false''], StopCheck,
                Exec RunProject
                  [''bandit'', ''-f'', ''json'', ''-iii'', ''-ll'', ''-r'', ''.'', ''-c'',
                   ''/opt/inlineplz/config/bandit.yaml'']]\<rparr>)
   \<and> {} \<union> {} \<union> {} \<union> {(''app.js'', 1, ''eslint: Missing semicolon'')}
       \<subseteq> fst (run_linters_loop (lint_project bandit_missing (\<lambda>w. False))
                (LINTERS ''/usr/bin/python3'' (\<lambda>p. p) ''/proj'') False False
                (Some [''node_modules'']) None [''bandit'', ''eslint'']
                \<lparr>previous_install_commands = [], world = (1::nat),
                   trace = [Exec PerfHack [''npm'', ''set'', ''progress=false'']]\<rparr> {})
   \<and> fst (run_linters (lint_project bandit_missing (\<lambda>w. False))
              (LINTERS ''/usr/bin/python3'' (\<lambda>p. p) ''/proj'') (LinterRunner 0) False False
              (Some [''node_modules'']) None (Some [''bandit'', ''eslint'']) None False)
       = Inr {(''app.js'', 1, ''eslint: Missing semicolon'')}"
proof -
  let ?env = "lint_project bandit_missing (\<lambda>w. False)"
  let ?reg = "LINTERS ''/usr/bin/python3'' (\<lambda>p. p) ''/proj''"
  let ?linters = "[''bandit'', ''eslint'']"
  let ?s = "\<lparr>previous_install_commands = [], world = (1::nat),
              trace = [Exec PerfHack [''npm'', ''set'', ''progress=false'']]\<rparr>"
  let ?s1 = "\<lparr>previous_install_commands = [], world = (2::nat),
               trace =
                 [Exec PerfHack [''npm'', ''set'', ''progress=false''], StopCheck,
                  Exec RunProject
                    [''bandit'', ''-f'', ''json'', ''-iii'', ''-ll'', ''-r'', ''.'', ''-c'',
                     ''/opt/inlineplz/config/bandit.yaml'']]\<rparr>"
  let ?s2 = "\<lparr>previous_install_commands = [], world = (3::nat),
               trace =
                 [Exec PerfHack [''npm'', ''set'', ''progress=false''], StopCheck,
                  Exec RunProject
                    [''bandit'', ''-f'', ''json'', ''-iii'', ''-ll'', ''-r'', ''.'', ''-c'',
                     ''/opt/inlineplz/config/bandit.yaml''],
                  StopCheck,
                  Exec RunProject
                    [''node_modules/.bin/eslint'', ''.'', ''-f'', ''unix'', ''-c'',
                     ''/opt/inlineplz/config/.eslintrc.js'', ''--ignore-path'',
                     ''/opt/inlineplz/config/.eslintignore'']]\<rparr>"
  have place_j: "0 < length ?linters" by simp
  have place_i: "Suc 0 < length ?linters" by simp
  have running: "\<forall>k \<le> max (Suc 0) 0.
      \<not> should_stop ?env (world (snd (run_linters_loop ?env ?reg False False
                                        (Some [''node_modules'']) None (take k ?linters) ?s {})))"
    by (simp add: lint_project_def example_env_def)
  have turn_j: "run_linters_loop ?env ?reg False False (Some [''node_modules'']) None
                  (take 0 ?linters) ?s {} = ({}, ?s)"
    by code_simp
  have raised: "exec_linter ?env False False (Some [''node_modules'']) None
                  (map_of ?reg (?linters ! 0)) (?s\<lparr>trace := trace ?s @ [StopCheck]\<rparr>)
                = (Inl OSError, ?s1)"
    by code_simp
  have turn_i: "run_linters_loop ?env ?reg False False (Some [''node_modules'']) None
                  (take (Suc 0) ?linters) ?s {} = ({}, ?s1)"
    by code_simp
  have ran: "exec_linter ?env False False (Some [''node_modules'']) None
               (map_of ?reg (?linters ! Suc 0)) (?s1\<lparr>trace := trace ?s1 @ [StopCheck]\<rparr>)
             = (Inr (Text ''report''), ?s2)"
    by code_simp
  have nonempty: "truthy (Text ''report'')" by simp
  have parsed: "linter_messages ?env (Some [''node_modules'']) (?linters ! Suc 0)
                  (map_of ?reg (?linters ! Suc 0)) (Text ''report'')
                = Inr {(''app.js'', 1, ''eslint: Missing semicolon'')}"
    by code_simp
  have whole: "fst (run_linters ?env ?reg (LinterRunner 0) False False
                      (Some [''node_modules'']) None (Some [''bandit'', ''eslint'']) None False)
               = Inr {(''app.js'', 1, ''eslint: Missing semicolon'')}"
    by code_simp
  note isolated =
    fault_isolation [OF place_j place_i running turn_j raised turn_i ran nonempty parsed]
  from isolated have in_final:
    "{} \<union> {} \<union> {} \<union> {(''app.js'', 1, ''eslint: Missing semicolon'')}
       \<subseteq> fst (run_linters_loop ?env ?reg False False (Some [''node_modules'']) None ?linters
                ?s {})"
    by (elim conjE)
  show ?thesis
    by (intro conjI) (rule raised, rule parsed, rule turn_i, rule in_final, rule whole)
qed

text \<open>
  The diagnostics of \<open>eslint\<close> are merged into a set that holds one of \<open>bandit\<close>: the one
  under \<open>node_modules\<close> is dropped, the one that comes twice is there once.
\<close>

theorem merge_prefixes_filters_and_unions_witness:
  "truthy (Text ''report'')
   \<and> parse (lint_project all_succeed (\<lambda>w. False)) (parser cfg_eslint) (Text ''report'')
       = Inr [(''app.js'', 1, ''Missing semicolon''),
              (''app.js'', 1, ''Missing semicolon''),
              (''node_modules/x.js'', 2, ''no-undef'')]
   \<and> parse_linter (lint_project all_succeed (\<lambda>w. False)) (Some [''node_modules'']) ''eslint''
         (Some cfg_eslint) (Text ''report'') {(''app.py'', 3, ''bandit: B101 assert used'')}
       = {(''app.py'', 3, ''bandit: B101 assert used'')} \<union>
           {(path, pos, ''eslint'' @ '': '' @ content) | path pos content.
              (path, pos, content)
                \<in> set [(''app.js'', 1, ''Missing semicolon''),
                       (''app.js'', 1, ''Missing semicolon''),
                       (''node_modules/x.js'', 2, ''no-undef'')]
              \<and> \<not> (\<exists>rule \<in> set [''node_modules''].
                      prefix rule (relpath (lint_project all_succeed (\<lambda>w. False)) path)
                      \<or> prefix rule path
                      \<or> fnmatch (lint_project all_succeed (\<lambda>w. False)) path rule
                      \<or> rule \<in> set (split_on CHR ''/'' path))}
   \<and> parse_linter (lint_project all_succeed (\<lambda>w. False)) (Some [''node_modules'']) ''eslint''
         (Some cfg_eslint) (Text ''report'') {(''app.py'', 3, ''bandit: B101 assert used'')}
       = {(''app.py'', 3, ''bandit: B101 assert used''),
          (''app.js'', 1, ''eslint: Missing semicolon'')}
   \<and> card (parse_linter (lint_project all_succeed (\<lambda>w. False)) (Some [''node_modules''])
             ''eslint'' (Some cfg_eslint) (Text ''report'') {}) = 1"
proof -
  have nonempty: "truthy (Text ''report'')"
    by simp
  have parsed: "parse (lint_project all_succeed (\<lambda>w. False)) (parser cfg_eslint) (Text ''report'')
       = Inr [(''app.js'', 1, ''Missing semicolon''),
              (''app.js'', 1, ''Missing semicolon''),
              (''node_modules/x.js'', 2, ''no-undef'')]"
    by code_simp
  have paths: "[''node_modules''] = []
       \<or> (\<forall>d \<in> set [(''app.js'', 1::int, ''Missing semicolon''),
                      (''app.js'', 1, ''Missing semicolon''),
                      (''node_modules/x.js'', 2, ''no-undef'')]. fst d \<noteq> [])"
    by simp
  have result: "parse_linter (lint_project all_succeed (\<lambda>w. False)) (Some [''node_modules''])
         ''eslint'' (Some cfg_eslint) (Text ''report'')
         {(''app.py'', 3, ''bandit: B101 assert used'')}
       = {(''app.py'', 3, ''bandit: B101 assert used''),
          (''app.js'', 1, ''eslint: Missing semicolon'')}"
    by code_simp
  have one: "card (parse_linter (lint_project all_succeed (\<lambda>w. False)) (Some [''node_modules''])
             ''eslint'' (Some cfg_eslint) (Text ''report'') {}) = 1"
    by code_simp
  note merged = merge_prefixes_filters_and_unions [OF nonempty parsed,
      of "[''node_modules'']" "''eslint''" "{(''app.py'', 3, ''bandit: B101 assert used'')}",
      THEN conjunct1, THEN mp, OF paths]
  show ?thesis
    by (intro conjI) (rule nonempty, rule parsed, rule merged, rule result, rule one)
qed

text \<open>
  A parser that reports a diagnostic with an empty path: with an ignore rule nothing of
  the tool is merged, not even the diagnostic of \<open>app.js\<close>; with no rule both are.
\<close>

lemma empty_path_merges_nothing:
  "parse_linter
       (example_env (Dir [] [''app.js'']) all_succeed (\<lambda>w. False)
          (\<lambda>p out. Inr [(''app.js'', 1, ''Missing semicolon''), ([], 0, ''Parsing error'')]))
       (Some [''node_modules'']) ''eslint'' (Some cfg_eslint) (Text ''report'') {}
     = {}
   \<and> parse_linter
         (example_env (Dir [] [''app.js'']) all_succeed (\<lambda>w. False)
            (\<lambda>p out. Inr [(''app.js'', 1, ''Missing semicolon''), ([], 0, ''Parsing error'')]))
         (Some []) ''eslint'' (Some cfg_eslint) (Text ''report'') {}
       = {(''app.js'', 1, ''eslint: Missing semicolon''), ([], 0, ''eslint: Parsing error'')}
   \<and> should_ignore_path
         (example_env (Dir [] [''app.js'']) all_succeed (\<lambda>w. False) (\<lambda>p out. Inr []))
         [] [''node_modules'']
       = Inl ValueError"
  by code_simp

section \<open>Two places where the code does not do what it sets out to do\<close>

text \<open>
  The body of \<open>install_trusted\<close>, when it runs in a world where spawning raises at most
  \<open>OSError\<close>, gives every command of \<open>TRUSTED_INSTALL\<close> to \<open>run_command\<close>, in order.
\<close>

lemma trusted_loop_runs_all:
  assumes "\<And>w command e. fst (spawn env w command) = Inl e \<Longrightarrow> e = OSError"
  shows "trace (snd (trusted_loop env cmds s)) = trace s @ map (Exec TrustedInstall) cmds"
proof (induction cmds arbitrary: s)
  case Nil
  then show ?case by simp
next
  case (Cons install_cmd rest)
  obtain r s1 where first: "run_command env TrustedInstall install_cmd s = (r, s1)"
    by (cases "run_command env TrustedInstall install_cmd s")
  have "r = Inl OSError \<or> (\<exists>v. r = Inr v)"
    using first assms[of "world s" install_cmd]
    by (cases r) (auto simp: run_command_def Let_def split: prod.splits sum.splits)
  then have "trusted_loop env (install_cmd # rest) s = trusted_loop env rest s1"
    using first by auto
  with Cons.IH[of s1] run_command_frame[OF first] show ?case by simp
qed

lemma install_trusted_runs_all:
  assumes "\<And>w command e. fst (spawn env w command) = Inl e \<Longrightarrow> e = OSError"
  shows "trace (snd (install_trusted env s))
           = trace s @ map (Exec TrustedInstall) (TRUSTED_INSTALL (sys_executable env))"
  unfolding install_trusted_def using assms by (rule trusted_loop_runs_all)

text \<open>
  C4. \<open>run_linters\<close> with \<open>trusted\<close> and \<open>install\<close> set, for the one enabled tool
  \<open>eslint\<close>, in a world where every command succeeds: the commands given to
  \<open>run_command\<close> are the performance tweak, the help probe and the run of \<open>eslint\<close>;
  no command of \<open>TRUSTED_INSTALL\<close> is among them.
\<close>

theorem trusted_installs_not_run:
  "run_linters (lint_project all_succeed (\<lambda>w. False))
       (LINTERS ''/usr/bin/python3'' (\<lambda>p. p) ''/proj'') (LinterRunner 0) True False (Some [])
       None (Some [''eslint'']) None True
     = (Inr {(''app.js'', 1, ''eslint: Missing semicolon''),
             (''node_modules/x.js'', 2, ''eslint: no-undef'')},
        \<lparr>previous_install_commands = [[''npm'', ''install'', ''eslint'']], world = 3,
           trace =
             [Exec PerfHack [''npm'', ''set'', ''progress=false''], StopCheck,
              Exec HelpProbe [''node_modules/.bin/eslint'', ''-h''],
              Exec RunProject
                [''node_modules/.bin/eslint'', ''.'', ''-f'', ''unix'', ''-c'',
                 ''/opt/inlineplz/config/.eslintrc.js'', ''--ignore-path'',
                 ''/opt/inlineplz/config/.eslintignore'']]\<rparr>)"
  by code_simp

text \<open>
  C7. With the rules \<open>node_modules\<close> and \<open>vendor\<close>, in a directory that holds
  \<open>vendor\<close> and no \<open>node_modules\<close>, removing \<open>node_modules\<close> raises
  \<open>ValueError\<close>, the loop over the rules ends, \<open>vendor\<close> stays among the names and the
  walk descends into it. With the rule \<open>vendor\<close> alone it is pruned. (The files under
  it are dropped later all the same, by \<open>should_ignore_path\<close>.)
\<close>

theorem pruning_ends_at_first_absent_rule:
  "remove_ignored [''node_modules'', ''vendor''] [''vendor''] = [''vendor'']
   \<and> map fst (os_walk (remove_ignored [''node_modules'', ''vendor'']) ''/proj''
                (Dir [(''vendor'', Dir [] [''lib.py''])] [''app.py'']))
       = [''/proj'', ''/proj/vendor'']
   \<and> map fst (os_walk (remove_ignored [''vendor'']) ''/proj''
                (Dir [(''vendor'', Dir [] [''lib.py''])] [''app.py'']))
       = [''/proj'']
   \<and> all_filenames_in_dir
         (example_env (Dir [(''vendor'', Dir [] [''lib.py''])] [''app.py'']) all_succeed
            (\<lambda>w. False) example_parsers)
         0 None (Some [''node_modules'', ''vendor''])
       = Inr [''/proj/app.py'']"
  by code_simp

end
